theory Spec2Isabelle
  imports Main
begin

section \<open>Chunked keychain jobs (src/libsync/creds/keychainchunk.cpp)\<close>

text \<open>
  The file is compiled for one of three targets. \<open>Q_OS_WIN\<close> selects the chunked
  write and the multi-chunk read; \<open>Q_OS_UNIX && !Q_OS_MAC\<close> selects the one-shot retry
  of a read. The target is a field of the configuration, and every \<open>#if\<close> of the source
  is an \<open>if\<close> on it.
\<close>

datatype platform = Windows | MacOS | UnixOther

text \<open>The error codes of the keychain library that the jobs copy and compare.\<close>

datatype Error =
    NoError
  | EntryNotFound
  | CouldNotDeleteEntry
  | AccessDeniedByUser
  | AccessDenied
  | NoBackendAvailable
  | NotImplemented
  | OtherError

type_synonym QString = string
type_synonym QByteArray = string

text \<open>An account exposes its URL (already as text) and its identifier.\<close>

record Account =
  url :: QString
  id_account :: QString

text \<open>
  \<open>ChunkSize\<close>, \<open>MaxChunks\<close> and \<open>AbstractCredentials::keychainKey\<close> are declared outside
  this file, as are the two application names; they are parameters here.
\<close>

record config =
  platform :: platform
  ChunkSize :: nat
  MaxChunks :: nat
  keychainKey :: "QString \<Rightarrow> QString \<Rightarrow> QString \<Rightarrow> QString"
  applicationName :: QString
  appName :: QString

text \<open>
  The members of \<open>Job\<close>, \<open>WriteJob\<close> and \<open>ReadJob\<close> in one record. \<open>account\<close> is the
  nullable \<open>Account *\<close>; \<open>chunkCount\<close> starts at 0 and is only ever incremented.
\<close>

record job =
  serviceName :: QString
  account :: "Account option"
  key :: QString
  insecureFallback :: bool
  keychainMigration :: bool
  error :: Error
  errorString :: QString
  chunkCount :: nat
  chunkBuffer :: QByteArray
  isJobRunning :: bool
  retryOnKeyChainError :: bool

text \<open>What a handler reads from the finished \<open>QKeychain::Job\<close> it is handed.\<close>

record qjob =
  q_key :: QString
  q_error :: Error
  q_errorString :: QString
  q_binaryData :: QByteArray
  q_insecureFallback :: bool

text \<open>
  What a handler does to the outside before it returns: it starts one backend job, arms
  the retry timer, or emits \<open>finished\<close>.
\<close>

datatype action =
    StartWrite QString QString QByteArray bool
  | StartRead QString QString bool
  | SingleShot nat
  | EmitFinished

text \<open>The member functions called through the incoming job pointer.\<close>

datatype member = M_error | M_errorString | M_key | M_deleteLater

subsection \<open>Library functions\<close>

text \<open>\<open>QString::number\<close> on a non-negative integer: its decimal digits.\<close>

definition digit :: "nat \<Rightarrow> char" where
  "digit d = ''0123456789'' ! d"

fun number :: "nat \<Rightarrow> QString" where
  "number n = (if n < 10 then [digit n] else number (n div 10) @ [digit (n mod 10)])"

declare number.simps [simp del]

definition left :: "nat \<Rightarrow> QByteArray \<Rightarrow> QByteArray" where
  "left n xs = take n xs"

definition right :: "nat \<Rightarrow> QByteArray \<Rightarrow> QByteArray" where
  "right n xs = drop (length xs - n) xs"

subsection \<open>Construction\<close>

text \<open>
  Modelled from the spec: the initial values of the members that the constructors do not
  assign, which the class declaration (not among the sources) gives. A job starts idle,
  with no error recorded, the fallback flag off and the one-shot retry permission set;
  the two flags are inputs of a job and have setters.
\<close>

definition Job_ctor :: "config \<Rightarrow> job" where
  "Job_ctor cfg =
     \<lparr> serviceName = appName cfg, account = None, key = [], insecureFallback = False,
       keychainMigration = False, error = NoError, errorString = [], chunkCount = 0,
       chunkBuffer = [], isJobRunning = False, retryOnKeyChainError = True \<rparr>"

definition WriteJob_ctor :: "config \<Rightarrow> Account option \<Rightarrow> QString \<Rightarrow> QByteArray \<Rightarrow> job" where
  "WriteJob_ctor cfg acc k data =
     (Job_ctor cfg) \<lparr> account := acc, key := k, chunkBuffer := data, chunkCount := 0 \<rparr>"

definition WriteJob_ctor_key :: "config \<Rightarrow> QString \<Rightarrow> QByteArray \<Rightarrow> job" where
  "WriteJob_ctor_key cfg k data =
     (let j = WriteJob_ctor cfg None k data
      in if platform cfg = Windows then j \<lparr> key := applicationName cfg @ ''_'' @ key j \<rparr> else j)"

definition ReadJob_ctor :: "config \<Rightarrow> Account option \<Rightarrow> QString \<Rightarrow> bool \<Rightarrow> job" where
  "ReadJob_ctor cfg acc k migration =
     (Job_ctor cfg) \<lparr> account := acc, key := k, keychainMigration := migration,
                      chunkCount := 0, chunkBuffer := [] \<rparr>"

definition ReadJob_ctor_key :: "config \<Rightarrow> QString \<Rightarrow> job" where
  "ReadJob_ctor_key cfg k =
     (let j = ReadJob_ctor cfg None k False
      in if platform cfg = Windows then j \<lparr> key := applicationName cfg @ ''_'' @ key j \<rparr> else j)"

definition setInsecureFallback :: "bool \<Rightarrow> job \<Rightarrow> job" where
  "setInsecureFallback b j = j \<lparr> insecureFallback := b \<rparr>"

definition setRetryOnKeyChainError :: "bool \<Rightarrow> job \<Rightarrow> job" where
  "setRetryOnKeyChainError b j = j \<lparr> retryOnKeyChainError := b \<rparr>"

subsection \<open>Key derivation\<close>

text \<open>Lines 155 to 160: the key of the chunk with the given index, as \<open>WriteJob\<close> builds it.\<close>

definition write_kck :: "config \<Rightarrow> job \<Rightarrow> nat \<Rightarrow> QString" where
  "write_kck cfg j index =
     (let keyWithIndex = key j @ (if index > 0 then ''.'' @ number index else [])
      in case account j of
           Some a \<Rightarrow> keychainKey cfg (url a) keyWithIndex (id_account a)
         | None \<Rightarrow> keyWithIndex)"

text \<open>Lines 219 to 223: the key of chunk 0, as \<open>ReadJob::start\<close> builds it.\<close>

definition read_kck_start :: "config \<Rightarrow> job \<Rightarrow> QString" where
  "read_kck_start cfg j =
     (case account j of
        Some a \<Rightarrow> keychainKey cfg (url a) (key j)
                    (if keychainMigration j then [] else id_account a)
      | None \<Rightarrow> key j)"

text \<open>Lines 269 to 274: the key of the next chunk, as \<open>ReadJob::slotReadJobDone\<close> builds it.\<close>

definition read_kck_next :: "config \<Rightarrow> job \<Rightarrow> nat \<Rightarrow> QString" where
  "read_kck_next cfg j count =
     (let keyWithIndex = key j @ ''.'' @ number count
      in case account j of
           Some a \<Rightarrow> keychainKey cfg (url a) keyWithIndex
                       (if keychainMigration j then [] else id_account a)
         | None \<Rightarrow> keyWithIndex)"

subsection \<open>WriteJob\<close>

text \<open>
  \<open>slotWriteJobDone\<close> returns the job after the call, what it did to the outside, and the
  members it called through the incoming pointer, in order. The pointer is \<open>None\<close> when it
  is null.
\<close>

definition slotWriteJobDone :: "config \<Rightarrow> job \<Rightarrow> qjob option \<Rightarrow> job \<times> action \<times> member list" where
  "slotWriteJobDone cfg j0 writeJob =
     (let (j1, d1) =
            (case writeJob of
               None \<Rightarrow> (j0, [])
             | Some w \<Rightarrow>
                 (let j = j0 \<lparr> error := q_error w, errorString := q_errorString w \<rparr>
                  in if q_error w \<noteq> NoError
                     then (j \<lparr> chunkBuffer := [] \<rparr>,
                           [M_error, M_errorString, M_error, M_key, M_errorString])
                     else (j, [M_error, M_errorString, M_error])))
      in if chunkBuffer j1 \<noteq> [] then
           (let chunk = (if platform cfg = Windows
                         then left (ChunkSize cfg) (chunkBuffer j1) else chunkBuffer j1);
                j2 = j1 \<lparr> chunkBuffer :=
                            (if platform cfg = Windows
                             then right (length (chunkBuffer j1) - length chunk) (chunkBuffer j1)
                             else []) \<rparr>;
                index = chunkCount j2;
                j3 = j2 \<lparr> chunkCount := chunkCount j2 + 1 \<rparr>
            in if chunkCount j3 > MaxChunks cfg then
                 (j3 \<lparr> chunkBuffer := [], isJobRunning := False \<rparr>, EmitFinished,
                  d1 @ [M_key, M_deleteLater])
               else
                 (j3, StartWrite (serviceName j3) (write_kck cfg j3 index) chunk
                        (insecureFallback j3),
                  d1 @ [M_deleteLater]))
         else (j1 \<lparr> isJobRunning := False \<rparr>, EmitFinished, d1 @ [M_deleteLater]))"

definition WriteJob_start :: "config \<Rightarrow> job \<Rightarrow> job \<times> action \<times> member list" where
  "WriteJob_start cfg j = slotWriteJobDone cfg (j \<lparr> isJobRunning := True \<rparr>) None"

subsection \<open>ReadJob\<close>

definition ReadJob_start :: "config \<Rightarrow> job \<Rightarrow> job \<times> action" where
  "ReadJob_start cfg j =
     (let j1 = j \<lparr> chunkCount := 0, chunkBuffer := [] \<rparr>
      in (j1 \<lparr> isJobRunning := True \<rparr>,
          StartRead (serviceName j1) (read_kck_start cfg j1) (insecureFallback j1)))"

definition slotReadJobDone :: "config \<Rightarrow> job \<Rightarrow> qjob option \<Rightarrow> job \<times> action" where
  "slotReadJobDone cfg j readJob =
     (case readJob of
        None \<Rightarrow> (j \<lparr> isJobRunning := False \<rparr>, EmitFinished)
      | Some r \<Rightarrow>
          if q_error r = NoError \<and> length (q_binaryData r) > 0 then
            (let j1 = j \<lparr> chunkBuffer := chunkBuffer j @ q_binaryData r,
                          chunkCount := chunkCount j + 1 \<rparr>
             in if platform cfg = Windows \<and> chunkCount j1 < MaxChunks cfg
                then (j1, StartRead (serviceName j1) (read_kck_next cfg j1 (chunkCount j1))
                            (insecureFallback j1))
                else (j1 \<lparr> isJobRunning := False \<rparr>, EmitFinished))
          else if platform cfg = UnixOther \<and> \<not> q_insecureFallback r
                  \<and> retryOnKeyChainError j
                  \<and> (q_error r = NoBackendAvailable \<or> q_error r = OtherError)
          then (j \<lparr> retryOnKeyChainError := False \<rparr>, SingleShot 10000)
          else
            (let j1 = (if platform cfg = UnixOther \<and> \<not> q_insecureFallback r
                       then j \<lparr> retryOnKeyChainError := False \<rparr> else j);
                 j2 = (if q_error r \<noteq> EntryNotFound
                          \<or> (q_error r = EntryNotFound \<and> chunkCount j1 = 0)
                       then j1 \<lparr> error := q_error r, errorString := q_errorString r \<rparr>
                       else j1)
             in (j2 \<lparr> isJobRunning := False \<rparr>, EmitFinished)))"


subsection \<open>The backend\<close>

text \<open>
  The secret store is outside the repository. It is modelled as a map from (service, key)
  to the stored bytes, with a list of failures still to come: each operation takes the
  next entry, and an entry other than \<open>NoError\<close> makes that operation fail with the given
  code and message and leaves the store as it is. With no entry left every operation
  succeeds. A finished job reports the key and the fallback flag it was started with.
\<close>

record backend =
  store :: "QString \<times> QString \<Rightarrow> QByteArray option"
  faults :: "(Error \<times> QString) list"

definition next_fault :: "backend \<Rightarrow> (Error \<times> QString) \<times> backend" where
  "next_fault b =
     (case faults b of [] \<Rightarrow> ((NoError, []), b) | f # fs \<Rightarrow> (f, b \<lparr> faults := fs \<rparr>))"

definition backend_write ::
  "backend \<Rightarrow> QString \<Rightarrow> QString \<Rightarrow> QByteArray \<Rightarrow> bool \<Rightarrow> backend \<times> qjob" where
  "backend_write b service k d ins =
     (let ((e, msg), b1) = next_fault b
      in if e \<noteq> NoError
         then (b1, \<lparr> q_key = k, q_error = e, q_errorString = msg, q_binaryData = d,
                     q_insecureFallback = ins \<rparr>)
         else (b1 \<lparr> store := (store b1)((service, k) \<mapsto> d) \<rparr>,
               \<lparr> q_key = k, q_error = NoError, q_errorString = [], q_binaryData = d,
                 q_insecureFallback = ins \<rparr>))"

definition backend_read :: "backend \<Rightarrow> QString \<Rightarrow> QString \<Rightarrow> bool \<Rightarrow> backend \<times> qjob" where
  "backend_read b service k ins =
     (let ((e, msg), b1) = next_fault b
      in if e \<noteq> NoError
         then (b1, \<lparr> q_key = k, q_error = e, q_errorString = msg, q_binaryData = [],
                     q_insecureFallback = ins \<rparr>)
         else (case store b1 (service, k) of
                 None \<Rightarrow>
                   (b1, \<lparr> q_key = k, q_error = EntryNotFound,
                          q_errorString = ''Entry not found'', q_binaryData = [],
                          q_insecureFallback = ins \<rparr>)
               | Some d \<Rightarrow>
                   (b1, \<lparr> q_key = k, q_error = NoError, q_errorString = [],
                          q_binaryData = d, q_insecureFallback = ins \<rparr>)))"

subsection \<open>Running a job to completion\<close>

text \<open>
  \<open>startAwait\<close> serves the event loop until \<open>isJobRunning\<close> is false. One job is in flight
  at a time, so the loop is: run the pending backend job, hand its completion to the slot,
  continue with what the slot started. The loops return the actions they served, in order.
\<close>

definition write_step :: "config \<Rightarrow> job \<Rightarrow> backend \<Rightarrow> action \<Rightarrow> (job \<times> backend \<times> action) option" where
  "write_step cfg j b act =
     (case act of
        StartWrite s k d ins \<Rightarrow>
          (let (b', w) = backend_write b s k d ins;
               (j', act', ds) = slotWriteJobDone cfg j (Some w)
           in Some (j', b', act'))
      | _ \<Rightarrow> None)"

definition write_measure :: "config \<times> job \<times> backend \<times> action \<Rightarrow> nat" where
  "write_measure = (\<lambda>(cfg, j, b, act).
     (case act of StartWrite s k d ins \<Rightarrow> 1 + (MaxChunks cfg + 1 - chunkCount j) | _ \<Rightarrow> 0))"

function write_loop :: "config \<Rightarrow> job \<Rightarrow> backend \<Rightarrow> action \<Rightarrow> job \<times> backend \<times> action list" where
  "write_loop cfg j b act =
     (case write_step cfg j b act of
        None \<Rightarrow> (j, b, [])
      | Some (j', b', act') \<Rightarrow>
          (let (jf, bf, tr) = write_loop cfg j' b' act' in (jf, bf, act # tr)))"
  by pat_completeness auto
termination
  by (relation "measure write_measure")
     (auto simp: write_step_def write_measure_def slotWriteJobDone_def backend_write_def
        next_fault_def Let_def split: action.splits if_splits prod.splits list.splits)

declare write_loop.simps [simp del]

definition read_step :: "config \<Rightarrow> job \<Rightarrow> backend \<Rightarrow> action \<Rightarrow> (job \<times> backend \<times> action) option" where
  "read_step cfg j b act =
     (case act of
        StartRead s k ins \<Rightarrow>
          (let (b', r) = backend_read b s k ins;
               (j', act') = slotReadJobDone cfg j (Some r)
           in Some (j', b', act'))
      | SingleShot ms \<Rightarrow>
          (let (j', act') = ReadJob_start cfg j in Some (j', b, act'))
      | _ \<Rightarrow> None)"

definition read_measure :: "config \<times> job \<times> backend \<times> action \<Rightarrow> nat" where
  "read_measure = (\<lambda>(cfg, j, b, act).
     (if retryOnKeyChainError j then 2 * MaxChunks cfg + 4 else 0) +
     (case act of
        StartRead s k ins \<Rightarrow> 1 + (MaxChunks cfg - chunkCount j)
      | SingleShot ms \<Rightarrow> MaxChunks cfg + 2
      | _ \<Rightarrow> 0))"

function read_loop :: "config \<Rightarrow> job \<Rightarrow> backend \<Rightarrow> action \<Rightarrow> job \<times> backend \<times> action list" where
  "read_loop cfg j b act =
     (case read_step cfg j b act of
        None \<Rightarrow> (j, b, [])
      | Some (j', b', act') \<Rightarrow>
          (let (jf, bf, tr) = read_loop cfg j' b' act' in (jf, bf, act # tr)))"
  by pat_completeness auto
termination
  by (relation "measure read_measure")
     (auto simp: read_step_def read_measure_def slotReadJobDone_def backend_read_def
        ReadJob_start_def next_fault_def Let_def
        split: action.splits if_splits prod.splits list.splits option.splits)

declare read_loop.simps [simp del]

text \<open>
  \<open>WriteJob::startAwait\<close> and \<open>ReadJob::startAwait\<close>: the boolean they return, the job
  and the backend afterwards, and the backend jobs that were started.
\<close>

definition WriteJob_startAwait ::
  "config \<Rightarrow> job \<Rightarrow> backend \<Rightarrow> bool \<times> job \<times> backend \<times> action list" where
  "WriteJob_startAwait cfg j b =
     (let (j1, act, ds) = WriteJob_start cfg j;
          (j2, b2, tr) = write_loop cfg j1 b act
      in (error j2 = NoError, j2, b2, tr))"

text \<open>Lines 244 to 253: what \<open>ReadJob::startAwait\<close> does once the loop has ended.\<close>

definition ReadJob_awaitResult :: "job \<Rightarrow> bool \<times> job" where
  "ReadJob_awaitResult j =
     (if error j = NoError then (True, j)
      else (False, j \<lparr> chunkCount := 0, chunkBuffer := [] \<rparr>))"

definition ReadJob_startAwait ::
  "config \<Rightarrow> job \<Rightarrow> backend \<Rightarrow> bool \<times> job \<times> backend \<times> action list" where
  "ReadJob_startAwait cfg j b =
     (let (j1, act) = ReadJob_start cfg j;
          (j2, b2, tr) = read_loop cfg j1 b act;
          (ok, j3) = ReadJob_awaitResult j2
      in (ok, j3, b2, tr))"

text \<open>The states of the specification, read off a job: completed with or without error.\<close>

definition completed_ok :: "job \<Rightarrow> bool" where
  "completed_ok j = (\<not> isJobRunning j \<and> error j = NoError)"

definition completed_err :: "job \<Rightarrow> bool" where
  "completed_err j = (\<not> isJobRunning j \<and> error j \<noteq> NoError)"


subsection \<open>Chunk lists, for stating what a run writes and reads\<close>

text \<open>
  The pieces a payload is cut into, the write jobs and the store they give, the keys a
  read asks for, and a store that holds a list of chunks under them. A configuration
  keeps the keys of an account apart when \<open>keychainKey\<close> is injective in the name.
\<close>

definition piece_size :: "config \<Rightarrow> QByteArray \<Rightarrow> nat" where
  "piece_size cfg buf = (if platform cfg = Windows then ChunkSize cfg else length buf)"

fun chunks :: "config \<Rightarrow> nat \<Rightarrow> QByteArray \<Rightarrow> QByteArray list" where
  "chunks cfg 0 buf = []"
| "chunks cfg (Suc m) buf =
     (if buf = [] then []
      else take (piece_size cfg buf) buf # chunks cfg m (drop (piece_size cfg buf) buf))"

fun write_actions :: "config \<Rightarrow> job \<Rightarrow> nat \<Rightarrow> QByteArray list \<Rightarrow> action list" where
  "write_actions cfg j n [] = []"
| "write_actions cfg j n (c # cs) =
     StartWrite (serviceName j) (write_kck cfg j n) c (insecureFallback j)
       # write_actions cfg j (Suc n) cs"

fun put_chunks ::
  "config \<Rightarrow> job \<Rightarrow> nat \<Rightarrow> QByteArray list \<Rightarrow> (QString \<times> QString \<Rightarrow> QByteArray option)
     \<Rightarrow> (QString \<times> QString \<Rightarrow> QByteArray option)" where
  "put_chunks cfg j n [] st = st"
| "put_chunks cfg j n (c # cs) st =
     put_chunks cfg j (Suc n) cs (st((serviceName j, write_kck cfg j n) \<mapsto> c))"

definition write_from :: "config \<Rightarrow> job \<Rightarrow> backend \<Rightarrow> qjob option \<Rightarrow> job \<times> backend \<times> action list" where
  "write_from cfg j b inc =
     (let (j', act, ds) = slotWriteJobDone cfg j inc in write_loop cfg j' b act)"

definition ok_inc :: "qjob option \<Rightarrow> bool" where
  "ok_inc inc = (case inc of None \<Rightarrow> True | Some w \<Rightarrow> q_error w = NoError)"

definition after_inc :: "job \<Rightarrow> qjob option \<Rightarrow> job" where
  "after_inc j inc =
     (case inc of None \<Rightarrow> j
      | Some w \<Rightarrow> j \<lparr> error := q_error w, errorString := q_errorString w \<rparr>)"

definition read_kck :: "config \<Rightarrow> job \<Rightarrow> nat \<Rightarrow> QString" where
  "read_kck cfg j i = (if i = 0 then read_kck_start cfg j else read_kck_next cfg j i)"

fun holds_chunks ::
  "config \<Rightarrow> job \<Rightarrow> nat \<Rightarrow> QByteArray list \<Rightarrow> (QString \<times> QString \<Rightarrow> QByteArray option) \<Rightarrow> bool" where
  "holds_chunks cfg j n [] st = True"
| "holds_chunks cfg j n (c # cs) st =
     (st (serviceName j, read_kck cfg j n) = Some c \<and> c \<noteq> [] \<and> holds_chunks cfg j (Suc n) cs st)"

definition keys_distinct :: "config \<Rightarrow> job \<Rightarrow> bool" where
  "keys_distinct cfg j =
     (case account j of
        None \<Rightarrow> True
      | Some a \<Rightarrow> inj (\<lambda>k. keychainKey cfg (url a) k (id_account a)))"

subsection \<open>Concrete configurations and stores\<close>

text \<open>
  A configuration for each target with two-byte chunks and at most three of them, and a
  backend built from a list of entries and a list of failures to come.
\<close>

definition cfg_of :: "platform \<Rightarrow> config" where
  "cfg_of p = \<lparr> platform = p, ChunkSize = 2, MaxChunks = 3,
               keychainKey = (\<lambda>u k i. k @ '':'' @ u @ '':'' @ i),
               applicationName = ''app'', appName = ''svc'' \<rparr>"

definition backend_of ::
  "((QString \<times> QString) \<times> QByteArray) list \<Rightarrow> (Error \<times> QString) list \<Rightarrow> backend" where
  "backend_of entries fs = \<lparr> store = map_of entries, faults = fs \<rparr>"

text \<open>Completions of a backend job with the fallback flag off: a chunk, and a failure.\<close>

definition chunk_done :: "QString \<Rightarrow> QByteArray \<Rightarrow> qjob" where
  "chunk_done k d = \<lparr> q_key = k, q_error = NoError, q_errorString = [], q_binaryData = d,
                      q_insecureFallback = False \<rparr>"

definition chunk_failed :: "QString \<Rightarrow> Error \<Rightarrow> QString \<Rightarrow> qjob" where
  "chunk_failed k e msg = \<lparr> q_key = k, q_error = e, q_errorString = msg, q_binaryData = [],
                            q_insecureFallback = False \<rparr>"

section \<open>Properties\<close>

subsection \<open>Unfolding the loops and the keys\<close>

lemma write_loop_StartWrite:
  "write_loop cfg j b (StartWrite s k d ins) =
     (let (b', w) = backend_write b s k d ins;
          (j', act', ds) = slotWriteJobDone cfg j (Some w);
          (jf, bf, tr) = write_loop cfg j' b' act'
      in (jf, bf, StartWrite s k d ins # tr))"
  by (subst write_loop.simps) (simp add: write_step_def split: prod.splits)

lemma write_loop_EmitFinished: "write_loop cfg j b EmitFinished = (j, b, [])"
  by (subst write_loop.simps) (simp add: write_step_def)

lemma read_loop_StartRead:
  "read_loop cfg j b (StartRead s k ins) =
     (let (b', r) = backend_read b s k ins;
          (j', act') = slotReadJobDone cfg j (Some r);
          (jf, bf, tr) = read_loop cfg j' b' act'
      in (jf, bf, StartRead s k ins # tr))"
  by (subst read_loop.simps) (simp add: read_step_def split: prod.splits)

lemma read_loop_SingleShot:
  "read_loop cfg j b (SingleShot ms) =
     (let (j', act') = ReadJob_start cfg j;
          (jf, bf, tr) = read_loop cfg j' b act'
      in (jf, bf, SingleShot ms # tr))"
  by (subst read_loop.simps) (simp add: read_step_def split: prod.splits)

lemma read_loop_EmitFinished: "read_loop cfg j b EmitFinished = (j, b, [])"
  by (subst read_loop.simps) (simp add: read_step_def)

text \<open>The keys depend on the account, the key and the migration flag of a job only.\<close>

lemma read_kck_start_upd [simp]:
  "read_kck_start cfg (j \<lparr> chunkCount := c \<rparr>) = read_kck_start cfg j"
  "read_kck_start cfg (j \<lparr> chunkBuffer := d \<rparr>) = read_kck_start cfg j"
  "read_kck_start cfg (j \<lparr> isJobRunning := r \<rparr>) = read_kck_start cfg j"
  "read_kck_start cfg (j \<lparr> error := e \<rparr>) = read_kck_start cfg j"
  "read_kck_start cfg (j \<lparr> errorString := m \<rparr>) = read_kck_start cfg j"
  "read_kck_start cfg (j \<lparr> retryOnKeyChainError := r \<rparr>) = read_kck_start cfg j"
  by (simp_all add: read_kck_start_def split: option.splits)

lemma read_kck_next_upd [simp]:
  "read_kck_next cfg (j \<lparr> chunkCount := c \<rparr>) n = read_kck_next cfg j n"
  "read_kck_next cfg (j \<lparr> chunkBuffer := d \<rparr>) n = read_kck_next cfg j n"
  "read_kck_next cfg (j \<lparr> isJobRunning := r \<rparr>) n = read_kck_next cfg j n"
  "read_kck_next cfg (j \<lparr> error := e \<rparr>) n = read_kck_next cfg j n"
  "read_kck_next cfg (j \<lparr> errorString := m \<rparr>) n = read_kck_next cfg j n"
  "read_kck_next cfg (j \<lparr> retryOnKeyChainError := r \<rparr>) n = read_kck_next cfg j n"
  by (simp_all add: read_kck_next_def Let_def split: option.splits)

lemma write_kck_upd [simp]:
  "write_kck cfg (j \<lparr> chunkCount := c \<rparr>) n = write_kck cfg j n"
  "write_kck cfg (j \<lparr> chunkBuffer := d \<rparr>) n = write_kck cfg j n"
  "write_kck cfg (j \<lparr> isJobRunning := r \<rparr>) n = write_kck cfg j n"
  "write_kck cfg (j \<lparr> error := e \<rparr>) n = write_kck cfg j n"
  "write_kck cfg (j \<lparr> errorString := m \<rparr>) n = write_kck cfg j n"
  "write_kck cfg (j \<lparr> retryOnKeyChainError := r \<rparr>) n = write_kck cfg j n"
  by (simp_all add: write_kck_def Let_def split: option.splits)

text \<open>Decimal numbers are never empty and determine the number.\<close>

lemma digit_inj: "a < 10 \<Longrightarrow> b < 10 \<Longrightarrow> digit a = digit b \<Longrightarrow> a = b"
  unfolding digit_def
  by (subst (asm) nth_eq_iff_index_eq) simp_all

lemma number_not_Nil [simp]: "number n \<noteq> []" "[] \<noteq> number n"
  by (subst number.simps, simp)+

lemma number_inj: "number a = number b \<Longrightarrow> a = b"
proof (induction a arbitrary: b rule: number.induct)
  case (1 n)
  show ?case
  proof (cases "n < 10")
    case True
    then have n: "number n = [digit n]" by (subst number.simps) simp
    show ?thesis
    proof (cases "b < 10")
      case True
      then have "number b = [digit b]" by (subst number.simps) simp
      with n "1.prems" \<open>n < 10\<close> True show ?thesis by (auto dest: digit_inj)
    next
      case False
      then have "number b = number (b div 10) @ [digit (b mod 10)]"
        by (subst number.simps) simp
      with n "1.prems" show ?thesis by (simp add: Cons_eq_append_conv)
    qed
  next
    case False
    then have n: "number n = number (n div 10) @ [digit (n mod 10)]"
      by (subst number.simps) simp
    show ?thesis
    proof (cases "b < 10")
      case True
      then have "number b = [digit b]" by (subst number.simps) simp
      with n "1.prems" show ?thesis by (simp add: append_eq_Cons_conv)
    next
      case b: False
      then have "number b = number (b div 10) @ [digit (b mod 10)]"
        by (subst number.simps) simp
      with n "1.prems" have e: "number (n div 10) = number (b div 10)"
        and d: "digit (n mod 10) = digit (b mod 10)" by simp_all
      from "1.IH" [OF False e] have "n div 10 = b div 10" .
      moreover from d have "n mod 10 = b mod 10" by (auto dest!: digit_inj [rotated 2])
      ultimately show ?thesis by (metis div_mult_mod_eq)
    qed
  qed
qed

lemmas read_run_defs = ReadJob_startAwait_def ReadJob_start_def read_loop_StartRead
  read_loop_SingleShot read_loop_EmitFinished backend_read_def next_fault_def
  slotReadJobDone_def ReadJob_awaitResult_def

lemmas concrete_defs = cfg_of_def backend_of_def ReadJob_ctor_def WriteJob_ctor_def
  Job_ctor_def number.simps digit_def

lemma slotWriteJobDone_error:
  "q_error w \<noteq> NoError \<Longrightarrow>
   slotWriteJobDone cfg j (Some w) =
     (j \<lparr> error := q_error w, errorString := q_errorString w, chunkBuffer := [],
          isJobRunning := False \<rparr>,
      EmitFinished, [M_error, M_errorString, M_error, M_key, M_errorString, M_deleteLater])"
  by (simp add: slotWriteJobDone_def)

subsection \<open>A failed chunk aborts the write\<close>

text \<open>
  C7. When the backend write of a chunk completes with an error, the job records the
  error code and message, clears the pending buffer, starts no further write and
  completes with the error; the store is what it was before the failed write, so the
  chunks written before stay in place.
\<close>

theorem write_chunk_error_aborts:
  assumes "e \<noteq> NoError" and "faults b = (e, msg) # fs"
  shows "write_loop cfg j b (StartWrite s k d ins) =
           (j \<lparr> error := e, errorString := msg, chunkBuffer := [], isJobRunning := False \<rparr>,
            b \<lparr> faults := fs \<rparr>, [StartWrite s k d ins])
         \<and> completed_err (fst (write_loop cfg j b (StartWrite s k d ins)))
         \<and> store (fst (snd (write_loop cfg j b (StartWrite s k d ins)))) = store b"
  using assms
  by (simp add: write_loop_StartWrite backend_write_def next_fault_def slotWriteJobDone_error
        write_loop_EmitFinished completed_err_def)

theorem write_chunk_error_aborts_witness:
  "AccessDenied \<noteq> NoError
   \<and> faults (backend_of [((''svc'', ''k''), ''ab'')] [(AccessDenied, ''denied'')]) =
       [(AccessDenied, ''denied'')]
   \<and> write_loop (cfg_of Windows)
         ((WriteJob_ctor (cfg_of Windows) None ''k'' ''ef'') \<lparr> chunkCount := 2 \<rparr>)
         (backend_of [((''svc'', ''k''), ''ab'')] [(AccessDenied, ''denied'')])
         (StartWrite ''svc'' ''k.1'' ''cd'' False) =
       ((WriteJob_ctor (cfg_of Windows) None ''k'' [])
          \<lparr> chunkCount := 2, error := AccessDenied, errorString := ''denied'' \<rparr>,
        backend_of [((''svc'', ''k''), ''ab'')] [],
        [StartWrite ''svc'' ''k.1'' ''cd'' False])"
proof -
  have h1: "AccessDenied \<noteq> NoError" by simp
  have h2: "faults (backend_of [((''svc'', ''k''), ''ab'')] [(AccessDenied, ''denied'')]) =
              (AccessDenied, ''denied'') # []"
    by (simp add: backend_of_def)
  show ?thesis
    using h2 write_chunk_error_aborts [OF h1 h2, where cfg = "cfg_of Windows"
      and j = "(WriteJob_ctor (cfg_of Windows) None ''k'' ''ef'') \<lparr> chunkCount := 2 \<rparr>"
      and s = "''svc''" and k = "''k.1''" and d = "''cd''" and ins = False, THEN conjunct1]
    by (simp add: backend_of_def WriteJob_ctor_def Job_ctor_def)
qed

subsection \<open>Key derivation\<close>

text \<open>
  C8. The storage key is a function of the job and the chunk index. Without an account
  it is the key for index 0 and the key, a dot and the index in decimal for a later
  index. With an account the same name goes through \<open>keychainKey\<close> with the account's
  URL; a read in migration mode passes the empty string in place of the account
  identifier, a read in normal mode and every write pass the identifier.
\<close>

theorem key_derivation:
  "write_kck cfg (j \<lparr> account := None \<rparr>) 0 = key j
   \<and> write_kck cfg (j \<lparr> account := None \<rparr>) (Suc i) = key j @ ''.'' @ number (Suc i)
   \<and> read_kck_start cfg (j \<lparr> account := None \<rparr>) = key j
   \<and> read_kck_next cfg (j \<lparr> account := None \<rparr>) (Suc i) = key j @ ''.'' @ number (Suc i)
   \<and> write_kck cfg (j \<lparr> account := Some a \<rparr>) i =
       keychainKey cfg (url a) (write_kck cfg (j \<lparr> account := None \<rparr>) i) (id_account a)
   \<and> read_kck_start cfg (j \<lparr> account := Some a, keychainMigration := True \<rparr>) =
       keychainKey cfg (url a) (key j) []
   \<and> read_kck_start cfg (j \<lparr> account := Some a, keychainMigration := False \<rparr>) =
       keychainKey cfg (url a) (key j) (id_account a)
   \<and> read_kck_next cfg (j \<lparr> account := Some a, keychainMigration := True \<rparr>) (Suc i) =
       keychainKey cfg (url a) (key j @ ''.'' @ number (Suc i)) []
   \<and> read_kck_next cfg (j \<lparr> account := Some a, keychainMigration := False \<rparr>) (Suc i) =
       keychainKey cfg (url a) (key j @ ''.'' @ number (Suc i)) (id_account a)
   \<and> snd (ReadJob_start cfg j) =
       StartRead (serviceName j) (read_kck_start cfg j) (insecureFallback j)"
  by (simp add: ReadJob_start_def Let_def)
     (simp add: write_kck_def read_kck_start_def read_kck_next_def)

theorem key_derivation_witness:
  "write_kck (cfg_of Windows) (WriteJob_ctor (cfg_of Windows) None ''k'' ''abcd'') 0 = ''k''
   \<and> write_kck (cfg_of Windows) (WriteJob_ctor (cfg_of Windows) None ''k'' ''abcd'') (Suc 11)
       = ''k.12''"
  using key_derivation [of "cfg_of Windows" "WriteJob_ctor (cfg_of Windows) None ''k'' ''abcd''"
      11 "\<lparr> url = ''u'', id_account = ''7'' \<rparr>", THEN conjunct1]
    key_derivation [of "cfg_of Windows" "WriteJob_ctor (cfg_of Windows) None ''k'' ''abcd''"
      11 "\<lparr> url = ''u'', id_account = ''7'' \<rparr>", THEN conjunct2, THEN conjunct1]
  by (simp add: concrete_defs read_kck_start_def read_kck_next_def)

subsection \<open>The null pointer of the first call\<close>

text \<open>
  C9. In \<open>slotWriteJobDone\<close> the incoming pointer should be dereferenced only when it is
  not null. The code does otherwise: called with the null pointer, as \<open>WriteJob::start\<close>
  calls it, every path through the slot ends in \<open>deleteLater\<close> on that pointer, and a
  job with the payload \<open>x\<close> starts its first write and then makes that call.
\<close>

theorem write_slot_null_deleteLater:
  "M_deleteLater \<in> set (snd (snd (slotWriteJobDone cfg j None)))
   \<and> WriteJob_start (cfg_of Windows) (WriteJob_ctor (cfg_of Windows) None ''k'' ''x'') =
       ((WriteJob_ctor (cfg_of Windows) None ''k'' [])
          \<lparr> chunkCount := 1, isJobRunning := True \<rparr>,
        StartWrite ''svc'' ''k'' ''x'' False, [M_deleteLater])"
  by (simp add: slotWriteJobDone_def WriteJob_start_def Let_def left_def right_def
        write_kck_def concrete_defs)

subsection \<open>The empty payload\<close>

text \<open>
  C10. Starting a write job whose payload is empty starts no backend write and emits
  \<open>finished\<close> at once with no error recorded: the backend is left as it was, and the
  job is completed without error.
\<close>

theorem empty_payload_no_write:
  "WriteJob_start cfg (setInsecureFallback ins (WriteJob_ctor cfg acc k [])) =
     (setInsecureFallback ins (WriteJob_ctor cfg acc k []), EmitFinished, [M_deleteLater])
   \<and> WriteJob_startAwait cfg (setInsecureFallback ins (WriteJob_ctor cfg acc k [])) b =
       (True, setInsecureFallback ins (WriteJob_ctor cfg acc k []), b, [])
   \<and> completed_ok (setInsecureFallback ins (WriteJob_ctor cfg acc k []))"
  by (simp add: WriteJob_startAwait_def WriteJob_start_def slotWriteJobDone_def
        setInsecureFallback_def WriteJob_ctor_def Job_ctor_def write_loop_EmitFinished
        completed_ok_def)

theorem empty_payload_no_write_witness:
  "WriteJob_startAwait (cfg_of UnixOther)
     (setInsecureFallback False (WriteJob_ctor (cfg_of UnixOther) None ''k'' []))
     (backend_of [] []) =
   (True, setInsecureFallback False (WriteJob_ctor (cfg_of UnixOther) None ''k'' []),
    backend_of [] [], [])"
  using empty_payload_no_write [of "cfg_of UnixOther" False None "''k''" "backend_of [] []"]
  by simp


subsection \<open>The retry of a read\<close>

text \<open>
  C4, as amended. On a Unix target other than macOS, a read that fails with
  \<open>NoBackendAvailable\<close> or \<open>OtherError\<close> while the retry permission is set and the
  fallback flag is off consumes the permission and arms the timer for 10000 ms; the timer
  runs \<open>ReadJob::start\<close>, which reads chunk 0 again under the same key. A run whose first
  read fails so ends with the same result, error, message and bytes as the run without
  the failure, after exactly one retry; and when the retried read fails the same way
  again, that error is recorded and the job completes with it.
\<close>

theorem read_retry_once:
  assumes "platform cfg = UnixOther" and "retryOnKeyChainError j" and "\<not> insecureFallback j"
    and "ea = NoBackendAvailable \<or> ea = OtherError"
    and "eb = NoBackendAvailable \<or> eb = OtherError"
  shows "slotReadJobDone cfg j
           (Some \<lparr> q_key = k, q_error = ea, q_errorString = msga, q_binaryData = d,
                   q_insecureFallback = False \<rparr>) =
           (j \<lparr> retryOnKeyChainError := False \<rparr>, SingleShot 10000)
    \<and> snd (ReadJob_start cfg (j \<lparr> retryOnKeyChainError := False \<rparr>)) = snd (ReadJob_start cfg j)
    \<and> fst (ReadJob_startAwait cfg j (b \<lparr> faults := [(ea, msga)] \<rparr>)) =
        fst (ReadJob_startAwait cfg j (b \<lparr> faults := [] \<rparr>))
    \<and> error (fst (snd (ReadJob_startAwait cfg j (b \<lparr> faults := [(ea, msga)] \<rparr>)))) =
        error (fst (snd (ReadJob_startAwait cfg j (b \<lparr> faults := [] \<rparr>))))
    \<and> errorString (fst (snd (ReadJob_startAwait cfg j (b \<lparr> faults := [(ea, msga)] \<rparr>)))) =
        errorString (fst (snd (ReadJob_startAwait cfg j (b \<lparr> faults := [] \<rparr>))))
    \<and> chunkBuffer (fst (snd (ReadJob_startAwait cfg j (b \<lparr> faults := [(ea, msga)] \<rparr>)))) =
        chunkBuffer (fst (snd (ReadJob_startAwait cfg j (b \<lparr> faults := [] \<rparr>))))
    \<and> snd (snd (snd (ReadJob_startAwait cfg j (b \<lparr> faults := [(ea, msga)] \<rparr>)))) =
        [snd (ReadJob_start cfg j), SingleShot 10000, snd (ReadJob_start cfg j)]
    \<and> snd (snd (snd (ReadJob_startAwait cfg j (b \<lparr> faults := [] \<rparr>)))) =
        [snd (ReadJob_start cfg j)]
    \<and> ReadJob_startAwait cfg j (b \<lparr> faults := (ea, msga) # (eb, msgb) # fs \<rparr>) =
        (False,
         j \<lparr> chunkCount := 0, chunkBuffer := [], isJobRunning := False,
             retryOnKeyChainError := False, error := eb, errorString := msgb \<rparr>,
         b \<lparr> faults := fs \<rparr>,
         [snd (ReadJob_start cfg j), SingleShot 10000, snd (ReadJob_start cfg j)])
    \<and> completed_err (fst (snd (ReadJob_startAwait cfg j (b \<lparr> faults := (ea, msga) # (eb, msgb) # fs \<rparr>))))"
  using assms
  by (auto simp add: read_run_defs completed_err_def Let_def split: option.splits)

theorem read_retry_once_witness:
  "platform (cfg_of UnixOther) = UnixOther
   \<and> retryOnKeyChainError (ReadJob_ctor (cfg_of UnixOther) None ''k'' False)
   \<and> \<not> insecureFallback (ReadJob_ctor (cfg_of UnixOther) None ''k'' False)
   \<and> ReadJob_startAwait (cfg_of UnixOther) (ReadJob_ctor (cfg_of UnixOther) None ''k'' False)
        (backend_of [((''svc'', ''k''), ''secret'')]
           [(NoBackendAvailable, ''no backend''), (OtherError, ''still none'')]) =
      (False,
       (ReadJob_ctor (cfg_of UnixOther) None ''k'' False)
         \<lparr> retryOnKeyChainError := False, error := OtherError, errorString := ''still none'' \<rparr>,
       backend_of [((''svc'', ''k''), ''secret'')] [],
       [StartRead ''svc'' ''k'' False, SingleShot 10000, StartRead ''svc'' ''k'' False])
   \<and> chunkBuffer (fst (snd (ReadJob_startAwait (cfg_of UnixOther)
        (ReadJob_ctor (cfg_of UnixOther) None ''k'' False)
        (backend_of [((''svc'', ''k''), ''secret'')] [(NoBackendAvailable, ''no backend'')]))))
      = ''secret''
   \<and> chunkBuffer (fst (snd (ReadJob_startAwait (cfg_of UnixOther)
        (ReadJob_ctor (cfg_of UnixOther) None ''k'' False)
        (backend_of [((''svc'', ''k''), ''secret'')] [])))) = ''secret''"
proof -
  have h1: "platform (cfg_of UnixOther) = UnixOther" by (simp add: cfg_of_def)
  have h2: "retryOnKeyChainError (ReadJob_ctor (cfg_of UnixOther) None ''k'' False)"
    by (simp add: ReadJob_ctor_def Job_ctor_def)
  have h3: "\<not> insecureFallback (ReadJob_ctor (cfg_of UnixOther) None ''k'' False)"
    by (simp add: ReadJob_ctor_def Job_ctor_def)
  have h4: "NoBackendAvailable = NoBackendAvailable \<or> NoBackendAvailable = OtherError" by simp
  have h5: "OtherError = NoBackendAvailable \<or> OtherError = OtherError" by simp
  show ?thesis
    using h1 h2 h3
      read_retry_once [OF h1 h2 h3 h4 h5, where msga = "''no backend''" and msgb = "''still none''"
        and fs = "[]" and b = "backend_of [((''svc'', ''k''), ''secret'')] []"]
    by (simp add: read_run_defs concrete_defs read_kck_start_def Let_def)
qed

text \<open>
  C4 as stated does not hold on the other targets: on macOS a job with the permission
  set and the fallback flag off records the first \<open>NoBackendAvailable\<close> and completes
  with it, and no retry is armed.
\<close>

theorem read_retry_counterexample:
  "retryOnKeyChainError (ReadJob_ctor (cfg_of MacOS) None ''k'' False)
   \<and> \<not> insecureFallback (ReadJob_ctor (cfg_of MacOS) None ''k'' False)
   \<and> ReadJob_startAwait (cfg_of MacOS) (ReadJob_ctor (cfg_of MacOS) None ''k'' False)
        (backend_of [((''svc'', ''k''), ''secret'')] [(NoBackendAvailable, ''no backend'')]) =
      (False,
       (ReadJob_ctor (cfg_of MacOS) None ''k'' False)
         \<lparr> error := NoBackendAvailable, errorString := ''no backend'' \<rparr>,
       backend_of [((''svc'', ''k''), ''secret'')] [],
       [StartRead ''svc'' ''k'' False])"
  by (simp add: read_run_defs concrete_defs read_kck_start_def Let_def)

subsection \<open>Entry not found\<close>

text \<open>
  C5. A completion that reports \<open>EntryNotFound\<close> ends the job. With no chunk read so far
  the job records \<open>EntryNotFound\<close> and its message and completes with that error; with
  at least one chunk read it records nothing, keeps the bytes read so far, and, no error
  having been recorded before, completes without error. Reading a key the backend does
  not hold ends after one read with \<open>EntryNotFound\<close> and no bytes.
\<close>

theorem entry_not_found_terminal:
  assumes "q_error r = EntryNotFound"
  shows "snd (slotReadJobDone cfg j (Some r)) = EmitFinished
    \<and> \<not> isJobRunning (fst (slotReadJobDone cfg j (Some r)))
    \<and> chunkBuffer (fst (slotReadJobDone cfg j (Some r))) = chunkBuffer j
    \<and> chunkCount (fst (slotReadJobDone cfg j (Some r))) = chunkCount j
    \<and> (chunkCount j = 0 \<longrightarrow>
         error (fst (slotReadJobDone cfg j (Some r))) = EntryNotFound
         \<and> errorString (fst (slotReadJobDone cfg j (Some r))) = q_errorString r
         \<and> completed_err (fst (slotReadJobDone cfg j (Some r))))
    \<and> (0 < chunkCount j \<longrightarrow>
         error (fst (slotReadJobDone cfg j (Some r))) = error j
         \<and> errorString (fst (slotReadJobDone cfg j (Some r))) = errorString j)
    \<and> (0 < chunkCount j \<and> error j = NoError \<longrightarrow>
         completed_ok (fst (slotReadJobDone cfg j (Some r)))
         \<and> ReadJob_awaitResult (fst (slotReadJobDone cfg j (Some r))) =
             (True, fst (slotReadJobDone cfg j (Some r))))
    \<and> (faults b = [] \<and> store b (serviceName j, read_kck_start cfg j) = None \<longrightarrow>
         fst (ReadJob_startAwait cfg j b) = False
         \<and> error (fst (snd (ReadJob_startAwait cfg j b))) = EntryNotFound
         \<and> chunkBuffer (fst (snd (ReadJob_startAwait cfg j b))) = []
         \<and> snd (snd (snd (ReadJob_startAwait cfg j b))) =
             [StartRead (serviceName j) (read_kck_start cfg j) (insecureFallback j)])"
  using assms
  by (simp add: read_run_defs completed_err_def completed_ok_def Let_def)

theorem entry_not_found_terminal_witness:
  "q_error (chunk_failed ''k.1'' EntryNotFound ''Entry not found'') = EntryNotFound
   \<and> 0 < chunkCount (fst (slotReadJobDone (cfg_of Windows)
           (fst (ReadJob_start (cfg_of Windows) (ReadJob_ctor (cfg_of Windows) None ''k'' False)))
           (Some (chunk_done ''k'' ''ab''))))
   \<and> error (fst (slotReadJobDone (cfg_of Windows)
           (fst (ReadJob_start (cfg_of Windows) (ReadJob_ctor (cfg_of Windows) None ''k'' False)))
           (Some (chunk_done ''k'' ''ab'')))) = NoError
   \<and> completed_ok (fst (slotReadJobDone (cfg_of Windows)
         (fst (slotReadJobDone (cfg_of Windows)
           (fst (ReadJob_start (cfg_of Windows) (ReadJob_ctor (cfg_of Windows) None ''k'' False)))
           (Some (chunk_done ''k'' ''ab''))))
         (Some (chunk_failed ''k.1'' EntryNotFound ''Entry not found''))))
   \<and> chunkBuffer (fst (slotReadJobDone (cfg_of Windows)
         (fst (slotReadJobDone (cfg_of Windows)
           (fst (ReadJob_start (cfg_of Windows) (ReadJob_ctor (cfg_of Windows) None ''k'' False)))
           (Some (chunk_done ''k'' ''ab''))))
         (Some (chunk_failed ''k.1'' EntryNotFound ''Entry not found'')))) = ''ab''
   \<and> chunkCount (fst (ReadJob_start (cfg_of Windows)
         (ReadJob_ctor (cfg_of Windows) None ''k'' False))) = 0
   \<and> completed_err (fst (slotReadJobDone (cfg_of Windows)
         (fst (ReadJob_start (cfg_of Windows) (ReadJob_ctor (cfg_of Windows) None ''k'' False)))
         (Some (chunk_failed ''k'' EntryNotFound ''Entry not found''))))
   \<and> error (fst (slotReadJobDone (cfg_of Windows)
         (fst (ReadJob_start (cfg_of Windows) (ReadJob_ctor (cfg_of Windows) None ''k'' False)))
         (Some (chunk_failed ''k'' EntryNotFound ''Entry not found'')))) = EntryNotFound"
  using entry_not_found_terminal [where r = "chunk_failed ''k.1'' EntryNotFound ''Entry not found''"
      and cfg = "cfg_of Windows"
      and j = "fst (slotReadJobDone (cfg_of Windows)
           (fst (ReadJob_start (cfg_of Windows) (ReadJob_ctor (cfg_of Windows) None ''k'' False)))
           (Some (chunk_done ''k'' ''ab'')))"]
    entry_not_found_terminal [where r = "chunk_failed ''k'' EntryNotFound ''Entry not found''"
      and cfg = "cfg_of Windows"
      and j = "fst (ReadJob_start (cfg_of Windows) (ReadJob_ctor (cfg_of Windows) None ''k'' False))"]
  by (simp add: chunk_failed_def chunk_done_def read_run_defs concrete_defs completed_ok_def
        completed_err_def read_kck_start_def read_kck_next_def Let_def)

subsection \<open>Other read failures\<close>

text \<open>
  C6, as amended. A completion that reports an error other than \<open>EntryNotFound\<close>, with
  no retry applicable, ends the job: the error code and message are recorded, the job
  completes with the error, and \<open>startAwait\<close> returns false after clearing the buffer.
\<close>

theorem read_error_recorded:
  assumes "q_error r \<noteq> NoError" and "q_error r \<noteq> EntryNotFound"
    and "\<not> (platform cfg = UnixOther \<and> \<not> q_insecureFallback r \<and> retryOnKeyChainError j
            \<and> (q_error r = NoBackendAvailable \<or> q_error r = OtherError))"
  shows "snd (slotReadJobDone cfg j (Some r)) = EmitFinished
    \<and> error (fst (slotReadJobDone cfg j (Some r))) = q_error r
    \<and> errorString (fst (slotReadJobDone cfg j (Some r))) = q_errorString r
    \<and> completed_err (fst (slotReadJobDone cfg j (Some r)))
    \<and> fst (ReadJob_awaitResult (fst (slotReadJobDone cfg j (Some r)))) = False
    \<and> chunkBuffer (snd (ReadJob_awaitResult (fst (slotReadJobDone cfg j (Some r))))) = []"
  using assms
  by (auto simp add: read_run_defs completed_err_def Let_def)

theorem read_error_recorded_witness:
  "q_error (chunk_failed ''k.1'' AccessDenied ''denied'') \<noteq> NoError
   \<and> q_error (chunk_failed ''k.1'' AccessDenied ''denied'') \<noteq> EntryNotFound
   \<and> platform (cfg_of Windows) \<noteq> UnixOther
   \<and> chunkBuffer (fst (slotReadJobDone (cfg_of Windows)
           (fst (ReadJob_start (cfg_of Windows) (ReadJob_ctor (cfg_of Windows) None ''k'' False)))
           (Some (chunk_done ''k'' ''ab'')))) = ''ab''
   \<and> error (fst (slotReadJobDone (cfg_of Windows)
         (fst (slotReadJobDone (cfg_of Windows)
           (fst (ReadJob_start (cfg_of Windows) (ReadJob_ctor (cfg_of Windows) None ''k'' False)))
           (Some (chunk_done ''k'' ''ab''))))
         (Some (chunk_failed ''k.1'' AccessDenied ''denied'')))) = AccessDenied
   \<and> chunkBuffer (snd (ReadJob_awaitResult (fst (slotReadJobDone (cfg_of Windows)
         (fst (slotReadJobDone (cfg_of Windows)
           (fst (ReadJob_start (cfg_of Windows) (ReadJob_ctor (cfg_of Windows) None ''k'' False)))
           (Some (chunk_done ''k'' ''ab''))))
         (Some (chunk_failed ''k.1'' AccessDenied ''denied'')))))) = []"
proof -
  have h1: "q_error (chunk_failed ''k.1'' AccessDenied ''denied'') \<noteq> NoError"
    by (simp add: chunk_failed_def)
  have h2: "q_error (chunk_failed ''k.1'' AccessDenied ''denied'') \<noteq> EntryNotFound"
    by (simp add: chunk_failed_def)
  have p: "platform (cfg_of Windows) \<noteq> UnixOther" by (simp add: cfg_of_def)
  then have h3: "\<not> (platform (cfg_of Windows) = UnixOther
      \<and> \<not> q_insecureFallback (chunk_failed ''k.1'' AccessDenied ''denied'')
      \<and> retryOnKeyChainError (fst (slotReadJobDone (cfg_of Windows)
           (fst (ReadJob_start (cfg_of Windows) (ReadJob_ctor (cfg_of Windows) None ''k'' False)))
           (Some (chunk_done ''k'' ''ab''))))
      \<and> (q_error (chunk_failed ''k.1'' AccessDenied ''denied'') = NoBackendAvailable
         \<or> q_error (chunk_failed ''k.1'' AccessDenied ''denied'') = OtherError))"
    by simp
  have b: "chunkBuffer (fst (slotReadJobDone (cfg_of Windows)
           (fst (ReadJob_start (cfg_of Windows) (ReadJob_ctor (cfg_of Windows) None ''k'' False)))
           (Some (chunk_done ''k'' ''ab'')))) = ''ab''"
    by (simp add: chunk_done_def read_run_defs concrete_defs Let_def)
  show ?thesis
    using h1 h2 p b read_error_recorded [OF h1 h2 h3] by (simp add: chunk_failed_def)
qed

text \<open>
  C6 as stated does not hold for a completion that reports no error and no data: the
  code it records is \<open>NoError\<close>. On Windows, with a first chunk and an empty second
  entry in the store, the job completes without error and keeps the first chunk.
\<close>

theorem read_empty_data_counterexample:
  "fst (ReadJob_startAwait (cfg_of Windows) (ReadJob_ctor (cfg_of Windows) None ''k'' False)
         (backend_of [((''svc'', ''k''), ''ab''), ((''svc'', ''k.1''), [])] [])) = True
   \<and> completed_ok (fst (snd (ReadJob_startAwait (cfg_of Windows)
         (ReadJob_ctor (cfg_of Windows) None ''k'' False)
         (backend_of [((''svc'', ''k''), ''ab''), ((''svc'', ''k.1''), [])] []))))
   \<and> chunkBuffer (fst (snd (ReadJob_startAwait (cfg_of Windows)
         (ReadJob_ctor (cfg_of Windows) None ''k'' False)
         (backend_of [((''svc'', ''k''), ''ab''), ((''svc'', ''k.1''), [])] [])))) = ''ab''
   \<and> snd (snd (snd (ReadJob_startAwait (cfg_of Windows)
         (ReadJob_ctor (cfg_of Windows) None ''k'' False)
         (backend_of [((''svc'', ''k''), ''ab''), ((''svc'', ''k.1''), [])] [])))) =
       [StartRead ''svc'' ''k'' False, StartRead ''svc'' ''k.1'' False]"
  by (simp add: read_run_defs concrete_defs read_kck_start_def read_kck_next_def
        completed_ok_def Let_def)

section \<open>Runs on a reliable backend\<close>

lemma right_left: "right (length buf - length (left c buf)) buf = drop c buf"
  by (cases "c \<le> length buf") (simp_all add: right_def left_def min_def)

lemma right_min: "right (length buf - min (length buf) c) buf = drop c buf"
  by (cases "c \<le> length buf") (simp_all add: right_def min_def)

lemma write_kck_cong:
  "account j' = account j \<Longrightarrow> key j' = key j \<Longrightarrow> write_kck cfg j' n = write_kck cfg j n"
  by (simp add: write_kck_def)

lemma write_actions_cong:
  "account j' = account j \<Longrightarrow> key j' = key j \<Longrightarrow> serviceName j' = serviceName j \<Longrightarrow>
   insecureFallback j' = insecureFallback j \<Longrightarrow>
   write_actions cfg j' n cs = write_actions cfg j n cs"
  by (induction cs arbitrary: n) (simp_all add: write_kck_def)

lemma put_chunks_cong:
  "account j' = account j \<Longrightarrow> key j' = key j \<Longrightarrow> serviceName j' = serviceName j \<Longrightarrow>
   put_chunks cfg j' n cs st = put_chunks cfg j n cs st"
  by (induction cs arbitrary: n st) (simp_all add: write_kck_def)

text \<open>One call of the slot on a reliable backend, by cases.\<close>

lemma slot_write_empty:
  "ok_inc inc \<Longrightarrow> chunkBuffer j = [] \<Longrightarrow>
   \<exists>j'. write_from cfg j b inc = (j', b, []) \<and> \<not> isJobRunning j' \<and> chunkBuffer j' = []
     \<and> (error j = NoError \<or> inc \<noteq> None \<longrightarrow> error j' = NoError)"
  by (auto simp: write_from_def slotWriteJobDone_def ok_inc_def write_loop_EmitFinished
        split: option.splits)

lemma slot_write_cutoff:
  "ok_inc inc \<Longrightarrow> chunkBuffer j \<noteq> [] \<Longrightarrow> MaxChunks cfg \<le> chunkCount j \<Longrightarrow>
   \<exists>j'. write_from cfg j b inc = (j', b, []) \<and> \<not> isJobRunning j' \<and> chunkBuffer j' = []
     \<and> (error j = NoError \<or> inc \<noteq> None \<longrightarrow> error j' = NoError)"
  by (auto simp: write_from_def slotWriteJobDone_def ok_inc_def write_loop_EmitFinished Let_def
        split: option.splits)

lemma slotWriteJobDone_next:
  assumes "ok_inc inc" and "chunkBuffer j \<noteq> []" and "chunkCount j < MaxChunks cfg"
  shows "\<exists>ds. slotWriteJobDone cfg j inc =
           ((after_inc j inc)
              \<lparr> chunkBuffer := drop (piece_size cfg (chunkBuffer j)) (chunkBuffer j),
                chunkCount := Suc (chunkCount j) \<rparr>,
            StartWrite (serviceName j) (write_kck cfg j (chunkCount j))
              (take (piece_size cfg (chunkBuffer j)) (chunkBuffer j)) (insecureFallback j),
            ds)"
  using assms
  by (auto simp: slotWriteJobDone_def ok_inc_def after_inc_def Let_def piece_size_def
        right_min left_def split: option.splits)

lemma backend_write_ok:
  "faults b = [] \<Longrightarrow>
   backend_write b s k d ins =
     (b \<lparr> store := (store b)((s, k) \<mapsto> d) \<rparr>,
      \<lparr> q_key = k, q_error = NoError, q_errorString = [], q_binaryData = d,
        q_insecureFallback = ins \<rparr>)"
  by (simp add: backend_write_def next_fault_def)

lemma write_loop_as_write_from:
  "write_loop cfg j b (StartWrite s k d ins) =
     (let (b', w) = backend_write b s k d ins;
          (jf, bf, tr) = write_from cfg j b' (Some w)
      in (jf, bf, StartWrite s k d ins # tr))"
  by (simp add: write_loop_StartWrite write_from_def split: prod.splits)

lemma slot_write_next:
  assumes "ok_inc inc" and "chunkBuffer j \<noteq> []" and "chunkCount j < MaxChunks cfg"
    and "faults b = []"
  shows "\<exists>j3 w. write_from cfg j b inc =
           (let (jf, bf, tr) =
                  write_from cfg j3
                    (b \<lparr> store := (store b)((serviceName j, write_kck cfg j (chunkCount j))
                            \<mapsto> take (piece_size cfg (chunkBuffer j)) (chunkBuffer j)) \<rparr>)
                    (Some w)
            in (jf, bf,
                StartWrite (serviceName j) (write_kck cfg j (chunkCount j))
                  (take (piece_size cfg (chunkBuffer j)) (chunkBuffer j)) (insecureFallback j) # tr))
         \<and> q_error w = NoError
         \<and> account j3 = account j \<and> key j3 = key j \<and> serviceName j3 = serviceName j
         \<and> insecureFallback j3 = insecureFallback j
         \<and> chunkCount j3 = Suc (chunkCount j)
         \<and> chunkBuffer j3 = drop (piece_size cfg (chunkBuffer j)) (chunkBuffer j)"
proof -
  from slotWriteJobDone_next [OF assms(1-3)] obtain ds where
    s: "slotWriteJobDone cfg j inc =
           ((after_inc j inc)
              \<lparr> chunkBuffer := drop (piece_size cfg (chunkBuffer j)) (chunkBuffer j),
                chunkCount := Suc (chunkCount j) \<rparr>,
            StartWrite (serviceName j) (write_kck cfg j (chunkCount j))
              (take (piece_size cfg (chunkBuffer j)) (chunkBuffer j)) (insecureFallback j),
            ds)" ..
  let ?j3 = "(after_inc j inc)
              \<lparr> chunkBuffer := drop (piece_size cfg (chunkBuffer j)) (chunkBuffer j),
                chunkCount := Suc (chunkCount j) \<rparr>"
  let ?w = "\<lparr> q_key = write_kck cfg j (chunkCount j), q_error = NoError, q_errorString = [],
              q_binaryData = take (piece_size cfg (chunkBuffer j)) (chunkBuffer j),
              q_insecureFallback = insecureFallback j \<rparr>"
  have "write_from cfg j b inc =
          write_loop cfg ?j3 b
            (StartWrite (serviceName j) (write_kck cfg j (chunkCount j))
              (take (piece_size cfg (chunkBuffer j)) (chunkBuffer j)) (insecureFallback j))"
    by (simp add: write_from_def s)
  also have "\<dots> = (let (jf, bf, tr) =
                  write_from cfg ?j3
                    (b \<lparr> store := (store b)((serviceName j, write_kck cfg j (chunkCount j))
                            \<mapsto> take (piece_size cfg (chunkBuffer j)) (chunkBuffer j)) \<rparr>)
                    (Some ?w)
            in (jf, bf,
                StartWrite (serviceName j) (write_kck cfg j (chunkCount j))
                  (take (piece_size cfg (chunkBuffer j)) (chunkBuffer j)) (insecureFallback j) # tr))"
    by (simp add: write_loop_as_write_from backend_write_ok [OF assms(4)])
  finally have "write_from cfg j b inc = \<dots>" .
  moreover have "account ?j3 = account j \<and> key ?j3 = key j \<and> serviceName ?j3 = serviceName j
         \<and> insecureFallback ?j3 = insecureFallback j"
    by (simp add: after_inc_def split: option.splits)
  ultimately show ?thesis
    by (intro exI [of _ ?j3] exI [of _ ?w]) simp
qed

lemma write_from_chunks:
  assumes "ok_inc inc" and "faults b = []" and "MaxChunks cfg - chunkCount j = m"
  shows "\<exists>jf. write_from cfg j b inc =
            (jf,
             b \<lparr> store := put_chunks cfg j (chunkCount j) (chunks cfg m (chunkBuffer j)) (store b) \<rparr>,
             write_actions cfg j (chunkCount j) (chunks cfg m (chunkBuffer j)))
          \<and> \<not> isJobRunning jf \<and> chunkBuffer jf = []
          \<and> (error j = NoError \<or> inc \<noteq> None \<longrightarrow> error jf = NoError)"
  using assms
proof (induction m arbitrary: j b inc)
  case 0
  show ?case
  proof (cases "chunkBuffer j = []")
    case True
    from slot_write_empty [OF "0.prems"(1) True, of cfg b] show ?thesis by auto
  next
    case False
    from "0.prems"(3) have "MaxChunks cfg \<le> chunkCount j" by simp
    from slot_write_cutoff [OF "0.prems"(1) False this, of b] show ?thesis by auto
  qed
next
  case (Suc m)
  show ?case
  proof (cases "chunkBuffer j = []")
    case True
    from slot_write_empty [OF Suc.prems(1) True, of cfg b] show ?thesis
      using True by auto
  next
    case False
    from Suc.prems(3) have lt: "chunkCount j < MaxChunks cfg" by simp
    let ?c = "take (piece_size cfg (chunkBuffer j)) (chunkBuffer j)"
    let ?b' = "b \<lparr> store := (store b)((serviceName j, write_kck cfg j (chunkCount j)) \<mapsto> ?c) \<rparr>"
    from slot_write_next [OF Suc.prems(1) False lt Suc.prems(2)]
    obtain j3 w where
      step: "write_from cfg j b inc =
           (let (jf, bf, tr) = write_from cfg j3 ?b' (Some w)
            in (jf, bf,
                StartWrite (serviceName j) (write_kck cfg j (chunkCount j)) ?c
                  (insecureFallback j) # tr))"
      and w: "q_error w = NoError"
      and same: "account j3 = account j" "key j3 = key j" "serviceName j3 = serviceName j"
        "insecureFallback j3 = insecureFallback j"
      and cnt: "chunkCount j3 = Suc (chunkCount j)"
      and buf: "chunkBuffer j3 = drop (piece_size cfg (chunkBuffer j)) (chunkBuffer j)"
      by blast
    have okw: "ok_inc (Some w)" using w by (simp add: ok_inc_def)
    have fb: "faults ?b' = []" using Suc.prems(2) by simp
    have m: "MaxChunks cfg - chunkCount j3 = m" using Suc.prems(3) cnt by simp
    from Suc.IH [OF okw fb m] obtain jf where
      ih: "write_from cfg j3 ?b' (Some w) =
            (jf,
             ?b' \<lparr> store := put_chunks cfg j3 (chunkCount j3) (chunks cfg m (chunkBuffer j3))
                              (store ?b') \<rparr>,
             write_actions cfg j3 (chunkCount j3) (chunks cfg m (chunkBuffer j3)))"
      and fin: "\<not> isJobRunning jf" "chunkBuffer jf = []" "error jf = NoError"
      by blast
    have "write_from cfg j b inc =
            (jf,
             b \<lparr> store := put_chunks cfg j (chunkCount j) (chunks cfg (Suc m) (chunkBuffer j)) (store b) \<rparr>,
             write_actions cfg j (chunkCount j) (chunks cfg (Suc m) (chunkBuffer j)))"
      using False
      by (simp add: step ih cnt buf write_actions_cong [OF same] put_chunks_cong [OF same(1-3)])
    with fin show ?thesis by auto
  qed
qed

subsection \<open>Keys\<close>

lemma suffix_inj:
  "(if 0 < i then ''.'' @ number i else []) = (if 0 < i' then ''.'' @ number i' else [])
   \<Longrightarrow> i = i'"
  by (auto split: if_splits dest: number_inj)

lemma write_kck_inj:
  assumes "keys_distinct cfg j" and "write_kck cfg j i = write_kck cfg j i'"
  shows "i = i'"
proof (cases "account j")
  case None
  with assms(2) show ?thesis
    by (intro suffix_inj) (simp add: write_kck_def Let_def)
next
  case (Some a)
  with assms(1) have i: "inj (\<lambda>k. keychainKey cfg (url a) k (id_account a))"
    by (simp add: keys_distinct_def)
  from assms(2) Some
  have "keychainKey cfg (url a) (key j @ (if 0 < i then ''.'' @ number i else [])) (id_account a) =
        keychainKey cfg (url a) (key j @ (if 0 < i' then ''.'' @ number i' else [])) (id_account a)"
    by (simp add: write_kck_def Let_def)
  from injD [OF i this] show ?thesis by (intro suffix_inj) simp
qed

lemma read_kck_write_kck:
  assumes "account rj = account wj" and "key rj = key wj"
    and "account rj = None \<or> \<not> keychainMigration rj"
  shows "read_kck cfg rj i = write_kck cfg wj i"
  using assms
  by (auto simp: read_kck_def read_kck_start_def read_kck_next_def write_kck_def Let_def
        split: option.splits)

lemma read_kck_cong:
  "account j' = account j \<Longrightarrow> key j' = key j \<Longrightarrow> keychainMigration j' = keychainMigration j \<Longrightarrow>
   read_kck cfg j' n = read_kck cfg j n"
  by (simp add: read_kck_def read_kck_start_def read_kck_next_def Let_def split: option.splits)

lemma holds_chunks_cong:
  "account j' = account j \<Longrightarrow> key j' = key j \<Longrightarrow> keychainMigration j' = keychainMigration j \<Longrightarrow>
   serviceName j' = serviceName j \<Longrightarrow>
   holds_chunks cfg j' n cs st = holds_chunks cfg j n cs st"
  by (induction cs arbitrary: n) (simp_all add: read_kck_cong [of j' j])

subsection \<open>The store after a write\<close>

lemma put_chunks_lookup:
  assumes "keys_distinct cfg j"
  shows "put_chunks cfg j n cs st (serviceName j, write_kck cfg j i) =
           (if n \<le> i \<and> i < n + length cs then Some (cs ! (i - n))
            else st (serviceName j, write_kck cfg j i))"
proof (induction cs arbitrary: n st)
  case Nil
  show ?case by auto
next
  case (Cons c cs)
  have eq: "write_kck cfg j i = write_kck cfg j n \<longleftrightarrow> i = n"
    using write_kck_inj [OF assms] by blast
  show ?case
    by (simp add: Cons.IH eq nth_Cons')
qed

lemma holds_chunksI:
  "(\<And>i. i < length cs \<Longrightarrow>
      st (serviceName j, read_kck cfg j (n + i)) = Some (cs ! i) \<and> cs ! i \<noteq> [])
   \<Longrightarrow> holds_chunks cfg j n cs st"
proof (induction cs arbitrary: n)
  case Nil
  show ?case by simp
next
  case (Cons c cs)
  from Cons.prems [of 0] have h: "st (serviceName j, read_kck cfg j n) = Some c" "c \<noteq> []"
    by simp_all
  have "holds_chunks cfg j (Suc n) cs st"
  proof (rule Cons.IH)
    fix i assume "i < length cs"
    with Cons.prems [of "Suc i"]
    show "st (serviceName j, read_kck cfg j (Suc n + i)) = Some (cs ! i) \<and> cs ! i \<noteq> []"
      by simp
  qed
  with h show ?case by simp
qed

subsection \<open>Chunks\<close>

lemma chunks_Nil [simp]: "chunks cfg m [] = []"
  by (cases m) simp_all

lemma chunks_nonempty:
  "(platform cfg = Windows \<longrightarrow> 0 < ChunkSize cfg) \<Longrightarrow> c \<in> set (chunks cfg m buf) \<Longrightarrow> c \<noteq> []"
  by (induction m arbitrary: buf) (auto simp: piece_size_def split: if_splits)

lemma concat_chunks_windows:
  "platform cfg = Windows \<Longrightarrow> concat (chunks cfg m buf) = take (ChunkSize cfg * m) buf"
  by (induction m arbitrary: buf) (simp_all add: piece_size_def take_add)

lemma chunks_other:
  "platform cfg \<noteq> Windows \<Longrightarrow> chunks cfg (Suc m) buf = (if buf = [] then [] else [buf])"
  by (simp add: piece_size_def)

lemma ceil_step:
  fixes l c :: nat
  assumes "0 < l" and "0 < c"
  shows "(l + c - 1) div c = Suc ((l - c + c - 1) div c)"
proof (cases "c \<le> l")
  case True
  then have a: "l + c - 1 = (l - 1) + c" and b: "l - c + c - 1 = l - 1" using assms by simp_all
  have "((l - 1) + c) div c = Suc ((l - 1) div c)" using assms(2) by (simp add: div_add_self2)
  then show ?thesis by (simp only: a b)
next
  case False
  then have "l - c + c - 1 = c - 1" by simp
  moreover have "(c - 1) div c = 0" using assms by simp
  moreover have "(l + c - 1) div c = 1"
  proof -
    have "l + c - 1 = (l - 1) + c" using assms by simp
    moreover have "(l - 1) div c = 0" using False assms by simp
    moreover have "((l - 1) + c) div c = Suc ((l - 1) div c)"
      using assms(2) by (simp add: div_add_self2)
    ultimately show ?thesis by simp
  qed
  ultimately show ?thesis by simp
qed

lemma length_chunks_windows:
  assumes "platform cfg = Windows" and "0 < ChunkSize cfg"
  shows "length (chunks cfg m buf) = min m ((length buf + ChunkSize cfg - 1) div ChunkSize cfg)"
proof (induction m arbitrary: buf)
  case 0
  show ?case by simp
next
  case (Suc m)
  show ?case
  proof (cases "buf = []")
    case True
    then show ?thesis using assms by simp
  next
    case False
    then have "0 < length buf" by simp
    from ceil_step [OF this assms(2)] show ?thesis
      using False assms by (simp add: piece_size_def Suc.IH)
  qed
qed

lemma upt_0_Suc: "[0..<Suc l] = 0 # map Suc [0..<l]"
  by (simp add: map_Suc_upt upt_conv_Cons del: upt_Suc)

lemma write_actions_windows:
  assumes "platform cfg = Windows"
  shows "write_actions cfg j n (chunks cfg m buf) =
           map (\<lambda>i. StartWrite (serviceName j) (write_kck cfg j (n + i))
                      (take (ChunkSize cfg) (drop (i * ChunkSize cfg) buf)) (insecureFallback j))
             [0..<length (chunks cfg m buf)]"
proof (induction m arbitrary: n buf)
  case 0
  show ?case by simp
next
  case (Suc m)
  show ?case
  proof (cases "buf = []")
    case True
    then show ?thesis by simp
  next
    case False
    then show ?thesis
      using assms
      by (simp add: piece_size_def Suc.IH upt_0_Suc comp_def add.commute del: upt_Suc)
  qed
qed

subsection \<open>Reading the chunks back\<close>

lemma read_kck_upd [simp]:
  "read_kck cfg (j \<lparr> chunkCount := c \<rparr>) n = read_kck cfg j n"
  "read_kck cfg (j \<lparr> chunkBuffer := d \<rparr>) n = read_kck cfg j n"
  "read_kck cfg (j \<lparr> isJobRunning := r \<rparr>) n = read_kck cfg j n"
  by (simp_all add: read_kck_def)

lemma holds_chunks_upd [simp]:
  "holds_chunks cfg (j \<lparr> chunkCount := c \<rparr>) n cs st = holds_chunks cfg j n cs st"
  "holds_chunks cfg (j \<lparr> chunkBuffer := d \<rparr>) n cs st = holds_chunks cfg j n cs st"
  "holds_chunks cfg (j \<lparr> isJobRunning := r \<rparr>) n cs st = holds_chunks cfg j n cs st"
  by (rule holds_chunks_cong; simp)+

lemma backend_read_hit:
  "faults b = [] \<Longrightarrow> store b (s, k) = Some c \<Longrightarrow>
   backend_read b s k ins =
     (b, \<lparr> q_key = k, q_error = NoError, q_errorString = [], q_binaryData = c,
           q_insecureFallback = ins \<rparr>)"
  by (simp add: backend_read_def next_fault_def)

lemma backend_read_miss:
  "faults b = [] \<Longrightarrow> store b (s, k) = None \<Longrightarrow>
   backend_read b s k ins =
     (b, \<lparr> q_key = k, q_error = EntryNotFound, q_errorString = ''Entry not found'',
           q_binaryData = [], q_insecureFallback = ins \<rparr>)"
  by (simp add: backend_read_def next_fault_def)

lemma read_loop_last_chunk:
  assumes "faults b = []" and "store b (s, k) = Some c" and "c \<noteq> []"
    and "platform cfg = Windows \<longrightarrow> MaxChunks cfg \<le> Suc (chunkCount j)"
  shows "fst (read_loop cfg j b (StartRead s k ins)) =
           j \<lparr> chunkBuffer := chunkBuffer j @ c, chunkCount := Suc (chunkCount j),
               isJobRunning := False \<rparr>"
  using assms(3,4)
  by (subst read_loop_StartRead)
     (auto simp add: backend_read_hit [OF assms(1,2)] slotReadJobDone_def Let_def
        read_loop_EmitFinished)

lemma read_loop_next_chunk:
  assumes "faults b = []" and "store b (s, k) = Some c" and "c \<noteq> []"
    and "platform cfg = Windows" and "Suc (chunkCount j) < MaxChunks cfg"
  shows "fst (read_loop cfg j b (StartRead s k ins)) =
           fst (read_loop cfg
             (j \<lparr> chunkBuffer := chunkBuffer j @ c, chunkCount := Suc (chunkCount j) \<rparr>) b
             (StartRead (serviceName j) (read_kck cfg j (Suc (chunkCount j))) (insecureFallback j)))"
  using assms(3-5)
  by (subst read_loop_StartRead)
     (simp add: backend_read_hit [OF assms(1,2)] slotReadJobDone_def Let_def read_kck_def
        split_beta)

lemma read_loop_end_of_data:
  assumes "faults b = []" and "store b (s, k) = None" and "0 < chunkCount j"
    and "platform cfg = Windows"
  shows "fst (read_loop cfg j b (StartRead s k ins)) = j \<lparr> isJobRunning := False \<rparr>"
  using assms(3,4)
  by (subst read_loop_StartRead)
     (simp add: backend_read_miss [OF assms(1,2)] slotReadJobDone_def Let_def
        read_loop_EmitFinished)

lemma read_loop_chunks:
  assumes "platform cfg = Windows" and "faults b = []"
    and "holds_chunks cfg j n cs (store b)" and "chunkCount j = n"
    and "n + length cs \<le> MaxChunks cfg"
    and "n + length cs < MaxChunks cfg \<longrightarrow>
           store b (serviceName j, read_kck cfg j (n + length cs)) = None"
    and "cs = [] \<longrightarrow> 0 < n \<and> n < MaxChunks cfg"
  shows "fst (read_loop cfg j b (StartRead (serviceName j) (read_kck cfg j n) (insecureFallback j)))
         = j \<lparr> chunkBuffer := chunkBuffer j @ concat cs, chunkCount := n + length cs,
               isJobRunning := False \<rparr>"
  using assms(3-7)
proof (induction cs arbitrary: j n)
  case Nil
  then have "store b (serviceName j, read_kck cfg j n) = None" and "0 < chunkCount j"
    by simp_all
  from read_loop_end_of_data [OF assms(2) this assms(1)] Nil.prems(2) show ?case by simp
next
  case (Cons c cs)
  from Cons.prems(1) have hit: "store b (serviceName j, read_kck cfg j n) = Some c"
    and c: "c \<noteq> []" and rest: "holds_chunks cfg j (Suc n) cs (store b)"
    by simp_all
  show ?case
  proof (cases "Suc n < MaxChunks cfg")
    case False
    with Cons.prems(3) have cs: "cs = []" by (cases cs) simp_all
    from False have m: "MaxChunks cfg \<le> Suc (chunkCount j)"
      using Cons.prems(2) by simp
    from read_loop_last_chunk [OF assms(2) hit c, of cfg j] m
    show ?thesis using cs Cons.prems(2) by simp
  next
    case True
    let ?j1 = "j \<lparr> chunkBuffer := chunkBuffer j @ c, chunkCount := Suc (chunkCount j) \<rparr>"
    have step: "fst (read_loop cfg j b
                  (StartRead (serviceName j) (read_kck cfg j n) (insecureFallback j))) =
                fst (read_loop cfg ?j1 b
                  (StartRead (serviceName ?j1) (read_kck cfg ?j1 (Suc n)) (insecureFallback ?j1)))"
      using read_loop_next_chunk [OF assms(2) hit c assms(1), of j] True Cons.prems(2)
      by simp
    have h1: "holds_chunks cfg ?j1 (Suc n) cs (store b)"
      using rest by simp
    have h2: "chunkCount ?j1 = Suc n" using Cons.prems(2) by simp
    have h3: "Suc n + length cs \<le> MaxChunks cfg" using Cons.prems(3) by simp
    have h4: "Suc n + length cs < MaxChunks cfg \<longrightarrow>
                store b (serviceName ?j1, read_kck cfg ?j1 (Suc n + length cs)) = None"
      using Cons.prems(4) by simp
    have h5: "cs = [] \<longrightarrow> 0 < Suc n \<and> Suc n < MaxChunks cfg" using True by simp
    from Cons.IH [OF h1 h2 h3 h4 h5] step show ?thesis by simp
  qed
qed

subsection \<open>A whole write and a whole read\<close>

lemma WriteJob_startAwait_chunks:
  assumes "faults b = []" and "chunkCount j = 0" and "error j = NoError"
  shows "\<exists>jf. WriteJob_startAwait cfg j b =
            (True, jf,
             b \<lparr> store := put_chunks cfg j 0 (chunks cfg (MaxChunks cfg) (chunkBuffer j)) (store b) \<rparr>,
             write_actions cfg j 0 (chunks cfg (MaxChunks cfg) (chunkBuffer j)))
          \<and> completed_ok jf \<and> chunkBuffer jf = []"
proof -
  let ?j = "j \<lparr> isJobRunning := True \<rparr>"
  have ok: "ok_inc None" by (simp add: ok_inc_def)
  have m: "MaxChunks cfg - chunkCount ?j = MaxChunks cfg" using assms(2) by simp
  from write_from_chunks [OF ok assms(1) m] obtain jf where
    w: "write_from cfg ?j b None =
          (jf,
           b \<lparr> store := put_chunks cfg ?j (chunkCount ?j)
                           (chunks cfg (MaxChunks cfg) (chunkBuffer ?j)) (store b) \<rparr>,
           write_actions cfg ?j (chunkCount ?j) (chunks cfg (MaxChunks cfg) (chunkBuffer ?j)))"
    and fin: "\<not> isJobRunning jf" "chunkBuffer jf = []"
    and e: "error ?j = NoError \<or> None \<noteq> (None :: qjob option) \<longrightarrow> error jf = NoError"
    by blast
  have pc: "put_chunks cfg ?j 0 cs st = put_chunks cfg j 0 cs st" for cs st
    by (rule put_chunks_cong) simp_all
  have wa: "write_actions cfg ?j 0 cs = write_actions cfg j 0 cs" for cs
    by (rule write_actions_cong) simp_all
  from e assms(3) have err: "error jf = NoError" by simp
  have "WriteJob_startAwait cfg j b =
          (True, jf,
           b \<lparr> store := put_chunks cfg j 0 (chunks cfg (MaxChunks cfg) (chunkBuffer j)) (store b) \<rparr>,
           write_actions cfg j 0 (chunks cfg (MaxChunks cfg) (chunkBuffer j)))"
    using w err assms(2)
    by (simp add: WriteJob_startAwait_def WriteJob_start_def write_from_def pc wa
          split: prod.splits)
  with fin err show ?thesis by (auto simp: completed_ok_def)
qed

lemma ReadJob_startAwait_windows:
  assumes "platform cfg = Windows" and "faults b = []"
    and "holds_chunks cfg j 0 cs (store b)" and "cs \<noteq> []"
    and "length cs \<le> MaxChunks cfg"
    and "length cs < MaxChunks cfg \<longrightarrow>
           store b (serviceName j, read_kck cfg j (length cs)) = None"
    and "error j = NoError"
  shows "fst (ReadJob_startAwait cfg j b) = True
       \<and> fst (snd (ReadJob_startAwait cfg j b)) =
           j \<lparr> chunkCount := length cs, chunkBuffer := concat cs, isJobRunning := False \<rparr>"
proof -
  let ?j1 = "j \<lparr> chunkCount := 0, chunkBuffer := [], isJobRunning := True \<rparr>"
  have h3: "holds_chunks cfg ?j1 0 cs (store b)" using assms(3) by simp
  have h4: "chunkCount ?j1 = 0" by simp
  have h5: "0 + length cs \<le> MaxChunks cfg" using assms(5) by simp
  have h6: "0 + length cs < MaxChunks cfg \<longrightarrow>
              store b (serviceName ?j1, read_kck cfg ?j1 (0 + length cs)) = None"
    using assms(6) by simp
  have h7: "cs = [] \<longrightarrow> 0 < (0::nat) \<and> 0 < MaxChunks cfg" using assms(4) by simp
  from read_loop_chunks [OF assms(1,2) h3 h4 h5 h6 h7]
  have r: "fst (read_loop cfg ?j1 b
             (StartRead (serviceName j) (read_kck_start cfg j) (insecureFallback j))) =
           j \<lparr> chunkCount := length cs, chunkBuffer := concat cs, isJobRunning := False \<rparr>"
    by (simp add: read_kck_def)
  show ?thesis
    using r assms(7)
    by (simp add: ReadJob_startAwait_def ReadJob_start_def ReadJob_awaitResult_def Let_def
          split_beta)
qed

lemma ReadJob_startAwait_single:
  assumes "platform cfg \<noteq> Windows" and "faults b = []"
    and "store b (serviceName j, read_kck_start cfg j) = Some c" and "c \<noteq> []"
    and "error j = NoError"
  shows "fst (ReadJob_startAwait cfg j b) = True
       \<and> fst (snd (ReadJob_startAwait cfg j b)) =
           j \<lparr> chunkCount := Suc 0, chunkBuffer := c, isJobRunning := False \<rparr>"
proof -
  let ?j1 = "j \<lparr> chunkCount := 0, chunkBuffer := [], isJobRunning := True \<rparr>"
  have "platform cfg = Windows \<longrightarrow> MaxChunks cfg \<le> Suc (chunkCount ?j1)"
    using assms(1) by simp
  from read_loop_last_chunk [OF assms(2,3,4) this]
  have r: "fst (read_loop cfg ?j1 b
             (StartRead (serviceName j) (read_kck_start cfg j) (insecureFallback j))) =
           j \<lparr> chunkCount := Suc 0, chunkBuffer := c, isJobRunning := False \<rparr>"
    by simp
  show ?thesis
    using r assms(5)
    by (simp add: ReadJob_startAwait_def ReadJob_start_def ReadJob_awaitResult_def Let_def
          split_beta)
qed

text \<open>The store a write leaves holds the chunks for a reader of the same key and account.\<close>

lemma holds_after_put:
  assumes "keys_distinct cfg wj"
    and "account rj = account wj" and "key rj = key wj" and "serviceName rj = serviceName wj"
    and "account rj = None \<or> \<not> keychainMigration rj"
    and "\<And>c. c \<in> set cs \<Longrightarrow> c \<noteq> []"
  shows "holds_chunks cfg rj 0 cs (put_chunks cfg wj 0 cs st)"
proof (rule holds_chunksI)
  fix i assume i: "i < length cs"
  have k: "read_kck cfg rj i = write_kck cfg wj i"
    by (rule read_kck_write_kck [OF assms(2,3,5)])
  from i have "cs ! i \<in> set cs" by simp
  with assms(6) have "cs ! i \<noteq> []" by blast
  then show "put_chunks cfg wj 0 cs st (serviceName rj, read_kck cfg rj (0 + i)) = Some (cs ! i)
             \<and> cs ! i \<noteq> []"
    using i by (simp add: k assms(4) put_chunks_lookup [OF assms(1)])
qed


lemma chunks_windows:
  assumes "platform cfg = Windows"
  shows "chunks cfg m buf =
           map (\<lambda>i. take (ChunkSize cfg) (drop (i * ChunkSize cfg) buf))
             [0..<length (chunks cfg m buf)]"
proof (induction m arbitrary: buf)
  case 0
  show ?case by simp
next
  case (Suc m)
  show ?case
  proof (cases "buf = []")
    case True
    then show ?thesis by simp
  next
    case False
    have "chunks cfg m (drop (ChunkSize cfg) buf) =
            map (\<lambda>i. take (ChunkSize cfg) (drop (i * ChunkSize cfg) (drop (ChunkSize cfg) buf)))
              [0..<length (chunks cfg m (drop (ChunkSize cfg) buf))]"
      by (rule Suc.IH)
    then show ?thesis
      using False assms
      by (simp add: piece_size_def upt_0_Suc comp_def add.commute del: upt_Suc)
  qed
qed

lemma chunks_not_Nil: "buf \<noteq> [] \<Longrightarrow> 0 < m \<Longrightarrow> chunks cfg m buf \<noteq> []"
  by (cases m) simp_all

lemma length_chunks_le: "length (chunks cfg m buf) \<le> m"
  by (induction m arbitrary: buf) simp_all

lemma ceil_le:
  fixes l c m :: nat
  assumes "0 < c" and "l \<le> c * m"
  shows "(l + c - 1) div c \<le> m"
proof -
  have "l + c - 1 < Suc m * c" using assms by (simp add: mult.commute)
  then have "(l + c - 1) div c < Suc m" using assms(1) by (simp add: div_less_iff_less_mult)
  then show ?thesis by simp
qed

lemma ceil_ge:
  fixes l c m :: nat
  assumes "0 < c" and "c * m < l"
  shows "m \<le> (l + c - 1) div c"
proof -
  have "m * c \<le> l + c - 1" using assms by (simp add: mult.commute)
  then show ?thesis using assms(1) by (simp add: less_eq_div_iff_mult_less_eq)
qed

lemma round_trip_general:
  assumes d: "keys_distinct cfg wj"
    and same: "account rj = account wj" "key rj = key wj" "serviceName rj = serviceName wj"
    and mig: "account rj = None \<or> \<not> keychainMigration rj"
    and cs0: "platform cfg = Windows \<longrightarrow> 0 < ChunkSize cfg"
    and mc: "0 < MaxChunks cfg"
    and f: "faults b = []"
    and fresh: "chunkCount wj = 0" "error wj = NoError" "error rj = NoError"
    and ne: "chunkBuffer wj \<noteq> []"
    and stale: "platform cfg = Windows
                  \<and> length (chunks cfg (MaxChunks cfg) (chunkBuffer wj)) < MaxChunks cfg \<longrightarrow>
                store b (serviceName wj,
                  write_kck cfg wj (length (chunks cfg (MaxChunks cfg) (chunkBuffer wj)))) = None"
  shows "\<exists>jf. WriteJob_startAwait cfg wj b =
            (True, jf,
             b \<lparr> store := put_chunks cfg wj 0 (chunks cfg (MaxChunks cfg) (chunkBuffer wj)) (store b) \<rparr>,
             write_actions cfg wj 0 (chunks cfg (MaxChunks cfg) (chunkBuffer wj)))
          \<and> completed_ok jf
          \<and> fst (ReadJob_startAwait cfg rj
                 (b \<lparr> store := put_chunks cfg wj 0 (chunks cfg (MaxChunks cfg) (chunkBuffer wj))
                                (store b) \<rparr>)) = True
          \<and> fst (snd (ReadJob_startAwait cfg rj
                 (b \<lparr> store := put_chunks cfg wj 0 (chunks cfg (MaxChunks cfg) (chunkBuffer wj))
                                (store b) \<rparr>))) =
              rj \<lparr> chunkCount := length (chunks cfg (MaxChunks cfg) (chunkBuffer wj)),
                   chunkBuffer := concat (chunks cfg (MaxChunks cfg) (chunkBuffer wj)),
                   isJobRunning := False \<rparr>"
proof -
  let ?cs = "chunks cfg (MaxChunks cfg) (chunkBuffer wj)"
  let ?bw = "b \<lparr> store := put_chunks cfg wj 0 ?cs (store b) \<rparr>"
  from WriteJob_startAwait_chunks [OF f fresh(1,2)] obtain jf where
    w: "WriteJob_startAwait cfg wj b = (True, jf, ?bw, write_actions cfg wj 0 ?cs)"
    and ok: "completed_ok jf" by blast
  have fw: "faults ?bw = []" using f by simp
  have nonempty: "\<And>c. c \<in> set ?cs \<Longrightarrow> c \<noteq> []"
    using chunks_nonempty [OF cs0] by blast
  have holds: "holds_chunks cfg rj 0 ?cs (store ?bw)"
    using holds_after_put [OF d same mig nonempty] by simp
  have csne: "?cs \<noteq> []" using chunks_not_Nil [OF ne mc] .
  have k: "read_kck cfg rj i = write_kck cfg wj i" for i
    by (rule read_kck_write_kck [OF same(1,2) mig])
  have r: "fst (ReadJob_startAwait cfg rj ?bw) = True
         \<and> fst (snd (ReadJob_startAwait cfg rj ?bw)) =
             rj \<lparr> chunkCount := length ?cs, chunkBuffer := concat ?cs, isJobRunning := False \<rparr>"
  proof (cases "platform cfg = Windows")
    case True
    have st: "length ?cs < MaxChunks cfg \<longrightarrow>
                store ?bw (serviceName rj, read_kck cfg rj (length ?cs)) = None"
      using stale True by (simp add: k same(3) put_chunks_lookup [OF d])
    from ReadJob_startAwait_windows [OF True fw holds csne length_chunks_le st fresh(3)]
    show ?thesis .
  next
    case False
    from mc obtain m where m: "MaxChunks cfg = Suc m" by (cases "MaxChunks cfg") simp_all
    have cs: "?cs = [chunkBuffer wj]" using chunks_other [OF False, of m "chunkBuffer wj"] ne m
      by simp
    have "read_kck_start cfg rj = write_kck cfg wj 0" using k [of 0] by (simp add: read_kck_def)
    then have hit: "store ?bw (serviceName rj, read_kck_start cfg rj) = Some (chunkBuffer wj)"
      by (simp add: cs same(3) put_chunks_lookup [OF d])
    from ReadJob_startAwait_single [OF False fw hit ne fresh(3)] show ?thesis
      by (simp add: cs)
  qed
  from w ok r show ?thesis by blast
qed

lemma ctor_facts:
  "account (setInsecureFallback iw (WriteJob_ctor cfg acc k S)) = acc"
  "key (setInsecureFallback iw (WriteJob_ctor cfg acc k S)) = k"
  "serviceName (setInsecureFallback iw (WriteJob_ctor cfg acc k S)) = appName cfg"
  "insecureFallback (setInsecureFallback iw (WriteJob_ctor cfg acc k S)) = iw"
  "chunkCount (setInsecureFallback iw (WriteJob_ctor cfg acc k S)) = 0"
  "chunkBuffer (setInsecureFallback iw (WriteJob_ctor cfg acc k S)) = S"
  "error (setInsecureFallback iw (WriteJob_ctor cfg acc k S)) = NoError"
  "account (setRetryOnKeyChainError rt (setInsecureFallback ir (ReadJob_ctor cfg acc k mig))) = acc"
  "key (setRetryOnKeyChainError rt (setInsecureFallback ir (ReadJob_ctor cfg acc k mig))) = k"
  "serviceName (setRetryOnKeyChainError rt (setInsecureFallback ir (ReadJob_ctor cfg acc k mig)))
     = appName cfg"
  "keychainMigration (setRetryOnKeyChainError rt (setInsecureFallback ir (ReadJob_ctor cfg acc k mig)))
     = mig"
  "error (setRetryOnKeyChainError rt (setInsecureFallback ir (ReadJob_ctor cfg acc k mig)))
     = NoError"
  by (simp_all add: setInsecureFallback_def setRetryOnKeyChainError_def WriteJob_ctor_def
        ReadJob_ctor_def Job_ctor_def)

text \<open>
  The constructors without an account are the general ones at no account, on Windows with
  the application name put before the key; a write and a read built so use the same key.
\<close>

lemma ctor_key_as_ctor:
  "WriteJob_ctor_key cfg k S =
     WriteJob_ctor cfg None (if platform cfg = Windows then applicationName cfg @ ''_'' @ k else k) S"
  "ReadJob_ctor_key cfg k =
     ReadJob_ctor cfg None (if platform cfg = Windows then applicationName cfg @ ''_'' @ k else k)
       False"
  by (simp_all add: WriteJob_ctor_key_def ReadJob_ctor_key_def WriteJob_ctor_def ReadJob_ctor_def
        Job_ctor_def Let_def)

lemmas write_run_defs = WriteJob_startAwait_def WriteJob_start_def slotWriteJobDone_def
  write_loop_StartWrite write_loop_EmitFinished backend_write_def next_fault_def left_def
  right_def write_kck_def

section \<open>Writing and reading back\<close>

subsection \<open>Round trip\<close>

text \<open>
  C1, as amended. For every non-empty secret, of length at most \<open>ChunkSize * MaxChunks\<close>
  where the target splits, on a backend without failures that holds no entry under the
  key following the last chunk written: a write job and then a read job for the same key
  and account (not in migration mode) both complete without error, and the buffer of the
  read job is the secret. With an account, \<open>keychainKey\<close> is taken to keep different
  names apart.
\<close>

theorem write_then_read_round_trip:
  fixes cfg acc k S iw ir rt b
  defines "wj \<equiv> setInsecureFallback iw (WriteJob_ctor cfg acc k S)"
    and "rj \<equiv> setRetryOnKeyChainError rt (setInsecureFallback ir (ReadJob_ctor cfg acc k False))"
  defines "bw \<equiv> fst (snd (snd (WriteJob_startAwait cfg wj b)))"
  assumes "S \<noteq> []" and "0 < MaxChunks cfg"
    and "platform cfg = Windows \<longrightarrow>
           0 < ChunkSize cfg \<and> length S \<le> ChunkSize cfg * MaxChunks cfg"
    and "faults b = []" and "keys_distinct cfg wj"
    and "platform cfg = Windows
           \<and> (length S + ChunkSize cfg - 1) div ChunkSize cfg < MaxChunks cfg \<longrightarrow>
         store b (appName cfg,
           write_kck cfg wj ((length S + ChunkSize cfg - 1) div ChunkSize cfg)) = None"
  shows "fst (WriteJob_startAwait cfg wj b)
       \<and> completed_ok (fst (snd (WriteJob_startAwait cfg wj b)))
       \<and> fst (ReadJob_startAwait cfg rj bw)
       \<and> completed_ok (fst (snd (ReadJob_startAwait cfg rj bw)))
       \<and> chunkBuffer (fst (snd (ReadJob_startAwait cfg rj bw))) = S"
proof -
  let ?cs = "chunks cfg (MaxChunks cfg) (chunkBuffer wj)"
  have buf: "chunkBuffer wj = S" by (simp add: wj_def ctor_facts)
  have len: "platform cfg = Windows \<Longrightarrow>
               length ?cs = (length S + ChunkSize cfg - 1) div ChunkSize cfg"
    using assms(6) ceil_le [of "ChunkSize cfg" "length S" "MaxChunks cfg"]
    by (simp add: length_chunks_windows buf min_def)
  have stale: "platform cfg = Windows \<and> length ?cs < MaxChunks cfg \<longrightarrow>
                 store b (serviceName wj, write_kck cfg wj (length ?cs)) = None"
    using assms(9) len by (auto simp: wj_def ctor_facts)
  have cat: "concat ?cs = S"
  proof (cases "platform cfg = Windows")
    case True
    with assms(6) show ?thesis by (simp add: concat_chunks_windows buf)
  next
    case False
    from assms(5) obtain m where "MaxChunks cfg = Suc m" by (cases "MaxChunks cfg") simp_all
    with chunks_other [OF False, of m S] assms(4) show ?thesis
      by (simp add: buf del: chunks.simps)
  qed
  have "\<exists>jf. WriteJob_startAwait cfg wj b =
            (True, jf, b \<lparr> store := put_chunks cfg wj 0 ?cs (store b) \<rparr>,
             write_actions cfg wj 0 ?cs)
          \<and> completed_ok jf
          \<and> fst (ReadJob_startAwait cfg rj (b \<lparr> store := put_chunks cfg wj 0 ?cs (store b) \<rparr>))
              = True
          \<and> fst (snd (ReadJob_startAwait cfg rj
                 (b \<lparr> store := put_chunks cfg wj 0 ?cs (store b) \<rparr>))) =
              rj \<lparr> chunkCount := length ?cs, chunkBuffer := concat ?cs, isJobRunning := False \<rparr>"
  proof (rule round_trip_general)
    show "keys_distinct cfg wj" by (rule assms(8))
    show "account rj = account wj" "key rj = key wj" "serviceName rj = serviceName wj"
      by (simp_all add: wj_def rj_def ctor_facts)
    show "account rj = None \<or> \<not> keychainMigration rj" by (simp add: rj_def ctor_facts)
    show "platform cfg = Windows \<longrightarrow> 0 < ChunkSize cfg" using assms(6) by simp
    show "0 < MaxChunks cfg" by (rule assms(5))
    show "faults b = []" by (rule assms(7))
    show "chunkCount wj = 0" "error wj = NoError" "error rj = NoError"
      by (simp_all add: wj_def rj_def ctor_facts)
    show "chunkBuffer wj \<noteq> []" using assms(4) buf by simp
    show "platform cfg = Windows \<and> length ?cs < MaxChunks cfg \<longrightarrow>
            store b (serviceName wj, write_kck cfg wj (length ?cs)) = None"
      by (rule stale)
  qed
  then obtain jf where
    w: "WriteJob_startAwait cfg wj b =
            (True, jf, b \<lparr> store := put_chunks cfg wj 0 ?cs (store b) \<rparr>,
             write_actions cfg wj 0 ?cs)"
    and ok: "completed_ok jf"
    and r1: "fst (ReadJob_startAwait cfg rj (b \<lparr> store := put_chunks cfg wj 0 ?cs (store b) \<rparr>))
              = True"
    and r2: "fst (snd (ReadJob_startAwait cfg rj
                 (b \<lparr> store := put_chunks cfg wj 0 ?cs (store b) \<rparr>))) =
              rj \<lparr> chunkCount := length ?cs, chunkBuffer := concat ?cs, isJobRunning := False \<rparr>"
    by blast
  have bw: "bw = b \<lparr> store := put_chunks cfg wj 0 ?cs (store b) \<rparr>"
    by (simp add: bw_def w)
  have e: "error rj = NoError" by (simp add: rj_def ctor_facts)
  show ?thesis
    using ok r1 e by (simp add: w bw r2 cat completed_ok_def)
qed

theorem write_then_read_round_trip_witness:
  "''abc'' \<noteq> [] \<and> 0 < MaxChunks (cfg_of Windows)
   \<and> platform (cfg_of Windows) = Windows \<and> 0 < ChunkSize (cfg_of Windows)
   \<and> length ''abc'' \<le> ChunkSize (cfg_of Windows) * MaxChunks (cfg_of Windows)
   \<and> faults (backend_of [] []) = []
   \<and> keys_distinct (cfg_of Windows)
        (setInsecureFallback False (WriteJob_ctor (cfg_of Windows) None ''k'' ''abc''))
   \<and> store (backend_of [] []) (''svc'', ''k.2'') = None
   \<and> chunkBuffer (fst (snd (ReadJob_startAwait (cfg_of Windows)
        (setRetryOnKeyChainError True
           (setInsecureFallback False (ReadJob_ctor (cfg_of Windows) None ''k'' False)))
        (fst (snd (snd (WriteJob_startAwait (cfg_of Windows)
           (setInsecureFallback False (WriteJob_ctor (cfg_of Windows) None ''k'' ''abc''))
           (backend_of [] []))))))))
      = ''abc''"
proof -
  have h1: "''abc'' \<noteq> []" by simp
  have h2: "0 < MaxChunks (cfg_of Windows)" by (simp add: cfg_of_def)
  have h3: "platform (cfg_of Windows) = Windows \<longrightarrow>
              0 < ChunkSize (cfg_of Windows)
              \<and> length ''abc'' \<le> ChunkSize (cfg_of Windows) * MaxChunks (cfg_of Windows)"
    by (simp add: cfg_of_def)
  have h4: "faults (backend_of [] []) = []" by (simp add: backend_of_def)
  have h5: "keys_distinct (cfg_of Windows)
              (setInsecureFallback False (WriteJob_ctor (cfg_of Windows) None ''k'' ''abc''))"
    by (simp add: keys_distinct_def setInsecureFallback_def WriteJob_ctor_def Job_ctor_def)
  have h6: "platform (cfg_of Windows) = Windows
              \<and> (length ''abc'' + ChunkSize (cfg_of Windows) - 1) div ChunkSize (cfg_of Windows)
                  < MaxChunks (cfg_of Windows) \<longrightarrow>
            store (backend_of [] [])
              (appName (cfg_of Windows),
               write_kck (cfg_of Windows)
                 (setInsecureFallback False (WriteJob_ctor (cfg_of Windows) None ''k'' ''abc''))
                 ((length ''abc'' + ChunkSize (cfg_of Windows) - 1) div ChunkSize (cfg_of Windows)))
            = None"
    by (simp add: backend_of_def)
  have p: "platform (cfg_of Windows) = Windows" "0 < ChunkSize (cfg_of Windows)"
    "length ''abc'' \<le> ChunkSize (cfg_of Windows) * MaxChunks (cfg_of Windows)"
    "store (backend_of [] []) (''svc'', ''k.2'') = None"
    by (simp_all add: cfg_of_def backend_of_def)
  from write_then_read_round_trip [OF h1 h2 h3 h4 h5 h6, of True False]
  have "chunkBuffer (fst (snd (ReadJob_startAwait (cfg_of Windows)
        (setRetryOnKeyChainError True
           (setInsecureFallback False (ReadJob_ctor (cfg_of Windows) None ''k'' False)))
        (fst (snd (snd (WriteJob_startAwait (cfg_of Windows)
           (setInsecureFallback False (WriteJob_ctor (cfg_of Windows) None ''k'' ''abc''))
           (backend_of [] []))))))))
      = ''abc''"
    by blast
  with h1 h2 h4 h5 p show ?thesis by blast
qed

text \<open>
  C1 as stated fails for the empty secret, for which nothing is written: on an empty
  store the read then ends with \<open>EntryNotFound\<close>. It also fails when the store holds an
  older entry under the next chunk key: the read appends it to the secret.
\<close>

theorem round_trip_counterexample:
  "fst (WriteJob_startAwait (cfg_of Windows) (WriteJob_ctor (cfg_of Windows) None ''k'' [])
          (backend_of [] [])) = True
   \<and> fst (ReadJob_startAwait (cfg_of Windows) (ReadJob_ctor (cfg_of Windows) None ''k'' False)
        (fst (snd (snd (WriteJob_startAwait (cfg_of Windows)
           (WriteJob_ctor (cfg_of Windows) None ''k'' []) (backend_of [] [])))))) = False
   \<and> error (fst (snd (ReadJob_startAwait (cfg_of Windows)
        (ReadJob_ctor (cfg_of Windows) None ''k'' False)
        (fst (snd (snd (WriteJob_startAwait (cfg_of Windows)
           (WriteJob_ctor (cfg_of Windows) None ''k'' []) (backend_of [] []))))))))
      = EntryNotFound
   \<and> chunkBuffer (fst (snd (ReadJob_startAwait (cfg_of Windows)
        (ReadJob_ctor (cfg_of Windows) None ''k'' False)
        (fst (snd (snd (WriteJob_startAwait (cfg_of Windows)
           (WriteJob_ctor (cfg_of Windows) None ''k'' ''ab'')
           (backend_of [((''svc'', ''k.1''), ''zz'')] []))))))))
      = ''abzz''"
  by (simp add: write_run_defs read_run_defs concrete_defs read_kck_start_def read_kck_next_def
        Let_def)

subsection \<open>The number of writes\<close>

text \<open>
  C2, as amended. On a backend without failures a write job of a payload of length \<open>L\<close>
  completes without error. Where the target splits, it starts
  \<open>min MaxChunks (ceil (L / ChunkSize))\<close> backend writes, the write with index \<open>i\<close> under
  the key derived for \<open>i\<close> and holding the bytes from \<open>i * ChunkSize\<close> on, in ascending
  order of the index. On the other targets it starts one write holding the whole payload,
  and none when the payload is empty.
\<close>

theorem write_chunk_count:
  fixes cfg acc k S iw b
  defines "wj \<equiv> setInsecureFallback iw (WriteJob_ctor cfg acc k S)"
  assumes "faults b = []" and "0 < MaxChunks cfg"
    and "platform cfg = Windows \<longrightarrow> 0 < ChunkSize cfg"
  shows "fst (WriteJob_startAwait cfg wj b)
       \<and> completed_ok (fst (snd (WriteJob_startAwait cfg wj b)))
       \<and> (platform cfg = Windows \<longrightarrow>
            snd (snd (snd (WriteJob_startAwait cfg wj b))) =
              map (\<lambda>i. StartWrite (appName cfg) (write_kck cfg wj i)
                         (take (ChunkSize cfg) (drop (i * ChunkSize cfg) S)) iw)
                [0..<min (MaxChunks cfg) ((length S + ChunkSize cfg - 1) div ChunkSize cfg)])
       \<and> (platform cfg \<noteq> Windows \<longrightarrow>
            snd (snd (snd (WriteJob_startAwait cfg wj b))) =
              (if S = [] then []
               else [StartWrite (appName cfg) (write_kck cfg wj 0) S iw]))"
proof -
  let ?cs = "chunks cfg (MaxChunks cfg) (chunkBuffer wj)"
  have buf: "chunkBuffer wj = S" and svc: "serviceName wj = appName cfg"
    and ins: "insecureFallback wj = iw" and c0: "chunkCount wj = 0" and e0: "error wj = NoError"
    by (simp_all add: wj_def ctor_facts)
  from WriteJob_startAwait_chunks [OF assms(2) c0 e0] obtain jf where
    w: "WriteJob_startAwait cfg wj b =
          (True, jf, b \<lparr> store := put_chunks cfg wj 0 ?cs (store b) \<rparr>, write_actions cfg wj 0 ?cs)"
    and ok: "completed_ok jf" by blast
  have win: "write_actions cfg wj 0 ?cs =
               map (\<lambda>i. StartWrite (appName cfg) (write_kck cfg wj i)
                         (take (ChunkSize cfg) (drop (i * ChunkSize cfg) S)) iw)
                [0..<min (MaxChunks cfg) ((length S + ChunkSize cfg - 1) div ChunkSize cfg)]"
    if p: "platform cfg = Windows"
  proof -
    from p assms(4) have cs: "0 < ChunkSize cfg" by simp
    show ?thesis
      using write_actions_windows [OF p, of wj 0 "MaxChunks cfg" "chunkBuffer wj"]
      by (simp add: length_chunks_windows [OF p cs] buf svc ins)
  qed
  have other: "write_actions cfg wj 0 ?cs =
                 (if S = [] then [] else [StartWrite (appName cfg) (write_kck cfg wj 0) S iw])"
    if p: "platform cfg \<noteq> Windows"
  proof -
    from assms(3) obtain m where "MaxChunks cfg = Suc m" by (cases "MaxChunks cfg") simp_all
    with chunks_other [OF p, of m S] show ?thesis
      by (simp add: buf svc ins del: chunks.simps)
  qed
  show ?thesis using ok win other by (simp add: w)
qed

theorem write_chunk_count_witness:
  "faults (backend_of [] []) = [] \<and> 0 < MaxChunks (cfg_of Windows)
   \<and> platform (cfg_of Windows) = Windows \<and> 0 < ChunkSize (cfg_of Windows)
   \<and> snd (snd (snd (WriteJob_startAwait (cfg_of Windows)
        (setInsecureFallback False (WriteJob_ctor (cfg_of Windows) None ''k'' ''abcde''))
        (backend_of [] [])))) =
      [StartWrite ''svc'' ''k'' ''ab'' False, StartWrite ''svc'' ''k.1'' ''cd'' False,
       StartWrite ''svc'' ''k.2'' ''e'' False]"
proof -
  have h1: "faults (backend_of [] []) = []" by (simp add: backend_of_def)
  have h2: "0 < MaxChunks (cfg_of Windows)" by (simp add: cfg_of_def)
  have p: "platform (cfg_of Windows) = Windows" "0 < ChunkSize (cfg_of Windows)"
    by (simp_all add: cfg_of_def)
  then have h3: "platform (cfg_of Windows) = Windows \<longrightarrow> 0 < ChunkSize (cfg_of Windows)"
    by simp
  have u: "[0..<3] = [0, 1, 2]" by (simp add: upt_rec)
  from write_chunk_count [OF h1 h2 h3, of False None "''k''" "''abcde''"] p(1)
  have "snd (snd (snd (WriteJob_startAwait (cfg_of Windows)
        (setInsecureFallback False (WriteJob_ctor (cfg_of Windows) None ''k'' ''abcde''))
        (backend_of [] [])))) =
      [StartWrite ''svc'' ''k'' ''ab'' False, StartWrite ''svc'' ''k.1'' ''cd'' False,
       StartWrite ''svc'' ''k.2'' ''e'' False]"
    by (simp add: cfg_of_def u write_kck_def setInsecureFallback_def WriteJob_ctor_def
          Job_ctor_def number.simps digit_def)
  with h1 h2 p show ?thesis by blast
qed

text \<open>
  C2 as stated fails beyond the limit: with two-byte chunks and at most three of them a
  payload of seven bytes would take four writes and gets three. Without a size cap an
  empty payload gets no write, not one.
\<close>

theorem write_chunk_count_counterexample:
  "fst (WriteJob_startAwait (cfg_of Windows)
          (WriteJob_ctor (cfg_of Windows) None ''k'' ''abcdefg'') (backend_of [] [])) = True
   \<and> (length ''abcdefg'' + ChunkSize (cfg_of Windows) - 1) div ChunkSize (cfg_of Windows) = 4
   \<and> snd (snd (snd (WriteJob_startAwait (cfg_of Windows)
          (WriteJob_ctor (cfg_of Windows) None ''k'' ''abcdefg'') (backend_of [] [])))) =
      [StartWrite ''svc'' ''k'' ''ab'' False, StartWrite ''svc'' ''k.1'' ''cd'' False,
       StartWrite ''svc'' ''k.2'' ''ef'' False]
   \<and> fst (WriteJob_startAwait (cfg_of MacOS)
          (WriteJob_ctor (cfg_of MacOS) None ''k'' []) (backend_of [] [])) = True
   \<and> snd (snd (snd (WriteJob_startAwait (cfg_of MacOS)
          (WriteJob_ctor (cfg_of MacOS) None ''k'' []) (backend_of [] [])))) = []"
  by (simp add: write_run_defs concrete_defs Let_def)

subsection \<open>Truncation\<close>

text \<open>
  C3. The chunk size is in force on the Windows target only. There, for every secret
  longer than \<open>ChunkSize * MaxChunks\<close>, on a backend without failures, the write job
  completes without error after \<open>MaxChunks\<close> writes; chunk \<open>i\<close> is stored under the key
  derived for \<open>i\<close>, and the chunks together are the first \<open>ChunkSize * MaxChunks\<close>
  bytes. A read job for the same key and account then completes without error and
  returns exactly those bytes.
\<close>

theorem oversized_secret_truncated:
  fixes cfg acc k S iw ir rt b
  defines "wj \<equiv> setInsecureFallback iw (WriteJob_ctor cfg acc k S)"
    and "rj \<equiv> setRetryOnKeyChainError rt (setInsecureFallback ir (ReadJob_ctor cfg acc k False))"
  defines "bw \<equiv> fst (snd (snd (WriteJob_startAwait cfg wj b)))"
  assumes "platform cfg = Windows" and "0 < ChunkSize cfg" and "0 < MaxChunks cfg"
    and "ChunkSize cfg * MaxChunks cfg < length S"
    and "faults b = []" and "keys_distinct cfg wj"
  shows "fst (WriteJob_startAwait cfg wj b)
       \<and> completed_ok (fst (snd (WriteJob_startAwait cfg wj b)))
       \<and> snd (snd (snd (WriteJob_startAwait cfg wj b))) =
           map (\<lambda>i. StartWrite (appName cfg) (write_kck cfg wj i)
                      (take (ChunkSize cfg) (drop (i * ChunkSize cfg) S)) iw)
             [0..<MaxChunks cfg]
       \<and> (\<forall>i<MaxChunks cfg.
             store bw (appName cfg, write_kck cfg wj i) =
               Some (take (ChunkSize cfg) (drop (i * ChunkSize cfg) S)))
       \<and> concat (map (\<lambda>i. take (ChunkSize cfg) (drop (i * ChunkSize cfg) S)) [0..<MaxChunks cfg])
           = take (ChunkSize cfg * MaxChunks cfg) S
       \<and> fst (ReadJob_startAwait cfg rj bw)
       \<and> completed_ok (fst (snd (ReadJob_startAwait cfg rj bw)))
       \<and> chunkBuffer (fst (snd (ReadJob_startAwait cfg rj bw))) =
           take (ChunkSize cfg * MaxChunks cfg) S"
proof -
  let ?cs = "chunks cfg (MaxChunks cfg) S"
  let ?f = "\<lambda>i. take (ChunkSize cfg) (drop (i * ChunkSize cfg) S)"
  have buf: "chunkBuffer wj = S" and svc: "serviceName wj = appName cfg"
    and ins: "insecureFallback wj = iw"
    by (simp_all add: wj_def ctor_facts)
  have len: "length ?cs = MaxChunks cfg"
    using ceil_ge [OF assms(5) assms(7)]
    by (simp add: length_chunks_windows [OF assms(4,5)] min_def)
  have csf: "?cs = map ?f [0..<MaxChunks cfg]"
  proof -
    have "?cs = map ?f [0..<length ?cs]" by (rule chunks_windows [OF assms(4)])
    also have "\<dots> = map ?f [0..<MaxChunks cfg]" by (simp only: len)
    finally show ?thesis .
  qed
  have cat: "concat ?cs = take (ChunkSize cfg * MaxChunks cfg) S"
    by (simp add: concat_chunks_windows [OF assms(4)])
  have stale: "platform cfg = Windows \<and> length ?cs < MaxChunks cfg \<longrightarrow>
                 store b (serviceName wj, write_kck cfg wj (length ?cs)) = None"
    by (simp add: len)
  have "\<exists>jf. WriteJob_startAwait cfg wj b =
            (True, jf, b \<lparr> store := put_chunks cfg wj 0 ?cs (store b) \<rparr>,
             write_actions cfg wj 0 ?cs)
          \<and> completed_ok jf
          \<and> fst (ReadJob_startAwait cfg rj (b \<lparr> store := put_chunks cfg wj 0 ?cs (store b) \<rparr>))
              = True
          \<and> fst (snd (ReadJob_startAwait cfg rj
                 (b \<lparr> store := put_chunks cfg wj 0 ?cs (store b) \<rparr>))) =
              rj \<lparr> chunkCount := length ?cs, chunkBuffer := concat ?cs, isJobRunning := False \<rparr>"
  proof (rule round_trip_general [where wj = wj, unfolded buf])
    show "keys_distinct cfg wj" by (rule assms(9))
    show "account rj = account wj" "key rj = key wj" "serviceName rj = serviceName wj"
      by (simp_all add: wj_def rj_def ctor_facts)
    show "account rj = None \<or> \<not> keychainMigration rj" by (simp add: rj_def ctor_facts)
    show "platform cfg = Windows \<longrightarrow> 0 < ChunkSize cfg" using assms(5) by simp
    show "0 < MaxChunks cfg" by (rule assms(6))
    show "faults b = []" by (rule assms(8))
    show "chunkCount wj = 0" "error wj = NoError" "error rj = NoError"
      by (simp_all add: wj_def rj_def ctor_facts)
    show "S \<noteq> []" using assms(7) by auto
    show "platform cfg = Windows \<and> length ?cs < MaxChunks cfg \<longrightarrow>
            store b (serviceName wj, write_kck cfg wj (length ?cs)) = None"
      by (rule stale)
  qed
  then obtain jf where
    w: "WriteJob_startAwait cfg wj b =
            (True, jf, b \<lparr> store := put_chunks cfg wj 0 ?cs (store b) \<rparr>,
             write_actions cfg wj 0 ?cs)"
    and ok: "completed_ok jf"
    and r1: "fst (ReadJob_startAwait cfg rj (b \<lparr> store := put_chunks cfg wj 0 ?cs (store b) \<rparr>))
              = True"
    and r2: "fst (snd (ReadJob_startAwait cfg rj
                 (b \<lparr> store := put_chunks cfg wj 0 ?cs (store b) \<rparr>))) =
              rj \<lparr> chunkCount := length ?cs, chunkBuffer := concat ?cs, isJobRunning := False \<rparr>"
    by blast
  have bw: "bw = b \<lparr> store := put_chunks cfg wj 0 ?cs (store b) \<rparr>"
    by (simp add: bw_def w)
  have e: "error rj = NoError" by (simp add: rj_def ctor_facts)
  have tr: "write_actions cfg wj 0 ?cs =
              map (\<lambda>i. StartWrite (appName cfg) (write_kck cfg wj i) (?f i) iw) [0..<MaxChunks cfg]"
    using write_actions_windows [OF assms(4), of wj 0 "MaxChunks cfg" S]
    by (simp add: len svc ins)
  have st: "\<forall>i<MaxChunks cfg. store bw (appName cfg, write_kck cfg wj i) = Some (?f i)"
  proof (intro allI impI)
    fix i assume i: "i < MaxChunks cfg"
    have "?cs ! i = map ?f [0..<MaxChunks cfg] ! i" by (simp only: csf [symmetric])
    also have "\<dots> = ?f i" using i by simp
    finally have "?cs ! i = ?f i" .
    then show "store bw (appName cfg, write_kck cfg wj i) = Some (?f i)"
      using i put_chunks_lookup [OF assms(9), of 0 ?cs "store b" i]
      by (simp add: bw svc len)
  qed
  have cat2: "concat (map ?f [0..<MaxChunks cfg]) = take (ChunkSize cfg * MaxChunks cfg) S"
    using cat by (simp only: csf [symmetric])
  show ?thesis
    using ok r1 e st cat2 by (simp add: w bw [symmetric] r2 [unfolded bw [symmetric]] cat tr completed_ok_def)
qed

theorem oversized_secret_truncated_witness:
  "platform (cfg_of Windows) = Windows \<and> 0 < ChunkSize (cfg_of Windows)
   \<and> 0 < MaxChunks (cfg_of Windows)
   \<and> ChunkSize (cfg_of Windows) * MaxChunks (cfg_of Windows) < length ''abcdefgh''
   \<and> faults (backend_of [] []) = []
   \<and> keys_distinct (cfg_of Windows)
        (setInsecureFallback False (WriteJob_ctor (cfg_of Windows) None ''k'' ''abcdefgh''))
   \<and> fst (WriteJob_startAwait (cfg_of Windows)
        (setInsecureFallback False (WriteJob_ctor (cfg_of Windows) None ''k'' ''abcdefgh''))
        (backend_of [] []))
   \<and> fst (ReadJob_startAwait (cfg_of Windows)
        (setRetryOnKeyChainError True
           (setInsecureFallback False (ReadJob_ctor (cfg_of Windows) None ''k'' False)))
        (fst (snd (snd (WriteJob_startAwait (cfg_of Windows)
           (setInsecureFallback False (WriteJob_ctor (cfg_of Windows) None ''k'' ''abcdefgh''))
           (backend_of [] []))))))
   \<and> chunkBuffer (fst (snd (ReadJob_startAwait (cfg_of Windows)
        (setRetryOnKeyChainError True
           (setInsecureFallback False (ReadJob_ctor (cfg_of Windows) None ''k'' False)))
        (fst (snd (snd (WriteJob_startAwait (cfg_of Windows)
           (setInsecureFallback False (WriteJob_ctor (cfg_of Windows) None ''k'' ''abcdefgh''))
           (backend_of [] []))))))))
      = ''abcdef''"
proof -
  have h1: "platform (cfg_of Windows) = Windows" by (simp add: cfg_of_def)
  have h2: "0 < ChunkSize (cfg_of Windows)" by (simp add: cfg_of_def)
  have h3: "0 < MaxChunks (cfg_of Windows)" by (simp add: cfg_of_def)
  have h4: "ChunkSize (cfg_of Windows) * MaxChunks (cfg_of Windows) < length ''abcdefgh''"
    by (simp add: cfg_of_def)
  have h5: "faults (backend_of [] []) = []" by (simp add: backend_of_def)
  have h6: "keys_distinct (cfg_of Windows)
              (setInsecureFallback False (WriteJob_ctor (cfg_of Windows) None ''k'' ''abcdefgh''))"
    by (simp add: keys_distinct_def setInsecureFallback_def WriteJob_ctor_def Job_ctor_def)
  have t: "take (ChunkSize (cfg_of Windows) * MaxChunks (cfg_of Windows)) ''abcdefgh'' = ''abcdef''"
    by (simp add: cfg_of_def)
  from oversized_secret_truncated [OF h1 h2 h3 h4 h5 h6, of True False]
  have "fst (WriteJob_startAwait (cfg_of Windows)
        (setInsecureFallback False (WriteJob_ctor (cfg_of Windows) None ''k'' ''abcdefgh''))
        (backend_of [] []))
   \<and> fst (ReadJob_startAwait (cfg_of Windows)
        (setRetryOnKeyChainError True
           (setInsecureFallback False (ReadJob_ctor (cfg_of Windows) None ''k'' False)))
        (fst (snd (snd (WriteJob_startAwait (cfg_of Windows)
           (setInsecureFallback False (WriteJob_ctor (cfg_of Windows) None ''k'' ''abcdefgh''))
           (backend_of [] []))))))
   \<and> chunkBuffer (fst (snd (ReadJob_startAwait (cfg_of Windows)
        (setRetryOnKeyChainError True
           (setInsecureFallback False (ReadJob_ctor (cfg_of Windows) None ''k'' False)))
        (fst (snd (snd (WriteJob_startAwait (cfg_of Windows)
           (setInsecureFallback False (WriteJob_ctor (cfg_of Windows) None ''k'' ''abcdefgh''))
           (backend_of [] []))))))))
      = ''abcdef''"
    unfolding t by blast
  with h1 h2 h3 h4 h5 h6 show ?thesis by blast
qed

end
